theory Spec2Isabelle
  imports Complex_Main
begin

section \<open>Python values, dictionaries and exceptions\<close>

text \<open>
  The gateway handles values of Python's type \<open>Any\<close>: the bodies decoded from JSON
  (\<open>response.json()\<close>, the claim set of a token) and the \<open>datetime\<close> objects it
  creates itself. \<open>pyval\<close> is that universe. JSON numbers are modelled as integers;
  a \<open>datetime\<close> is the number of microseconds since the epoch, in UTC (the code only
  creates aware UTC datetimes through \<open>_utcnow\<close>).
  A dictionary is an association list in insertion order with one binding per key;
  a lookup reads the first binding of the key.
\<close>

datatype pyval =
    PNone
  | PBool bool
  | PInt int
  | PStr string
  | PList "pyval list"
  | PDict "(string \<times> pyval) list"
  | PDateTime int

type_synonym pydict = "(string \<times> pyval) list"

type_synonym datetime = int

text \<open>
  Exceptions are values. \<open>ValueError\<close> stands for the class and its subclasses (the
  callback handler catches exactly these); \<open>OtherError\<close> is every exception of the
  libraries that is none of the named classes (an HTTP status error, a transport
  failure, a token the JWT library refuses).
\<close>

datatype exn =
    ValueError string
  | AttributeError string
  | TypeError string
  | OverflowError string
  | OtherError string

text \<open>Python's truth value of an object: \<open>not x\<close> is \<open>\<not> truthy x\<close>.\<close>

fun truthy :: "pyval \<Rightarrow> bool" where
  "truthy PNone = False"
| "truthy (PBool b) = b"
| "truthy (PInt i) = (i \<noteq> 0)"
| "truthy (PStr s) = (s \<noteq> [])"
| "truthy (PList xs) = (xs \<noteq> [])"
| "truthy (PDict kvs) = (kvs \<noteq> [])"
| "truthy (PDateTime t) = True"

text \<open>\<open>d.get(k, default)\<close>, and \<open>d.get(k)\<close> whose default is \<open>None\<close>.\<close>

definition dict_get_default :: "pydict \<Rightarrow> string \<Rightarrow> pyval \<Rightarrow> pyval" where
  "dict_get_default d k dflt = (case map_of d k of None \<Rightarrow> dflt | Some v \<Rightarrow> v)"

definition dict_get :: "pydict \<Rightarrow> string \<Rightarrow> pyval" where
  "dict_get d k = dict_get_default d k PNone"

text \<open>\<open>d[k] = v\<close>: an existing key keeps its place, a new key goes last.\<close>

fun dict_set :: "pydict \<Rightarrow> string \<Rightarrow> pyval \<Rightarrow> pydict" where
  "dict_set [] k v = [(k, v)]"
| "dict_set ((k', v') # rest) k v =
     (if k' = k then (k, v) # rest else (k', v') # dict_set rest k v)"

text \<open>\<open>d.pop(k, None)\<close>, for its effect on the dictionary.\<close>

definition dict_pop :: "pydict \<Rightarrow> string \<Rightarrow> pydict" where
  "dict_pop d k = filter (\<lambda>kv. fst kv \<noteq> k) d"

section \<open>The token store (notion\_oauth.py)\<close>

record TokenRecord =
  access_token :: pyval
  workspace_id :: pyval
  workspace_name :: pyval
  created_at :: datetime
  scope :: pyval
  raw :: pyval

record InMemoryTokenStore =
  last_token :: "TokenRecord option"

definition InMemoryTokenStore_init :: InMemoryTokenStore where
  "InMemoryTokenStore_init = \<lparr>last_token = None\<rparr>"

definition save :: "InMemoryTokenStore \<Rightarrow> TokenRecord \<Rightarrow> InMemoryTokenStore" where
  "save self record = self\<lparr>last_token := Some record\<rparr>"

definition get :: "InMemoryTokenStore \<Rightarrow> TokenRecord option" where
  "get self = last_token self"

text \<open>
  \<open>store_token\<close> reads the provider's response with \<open>.get\<close>, which only a dictionary
  has: any other decoded body raises \<open>AttributeError\<close> before anything is saved.
  \<open>now\<close> is the value of \<open>_utcnow()\<close> at the call.
\<close>

definition store_token ::
  "pyval \<Rightarrow> datetime \<Rightarrow> InMemoryTokenStore \<Rightarrow> exn + (TokenRecord \<times> InMemoryTokenStore)" where
  "store_token token_response now token_store =
     (case token_response of
        PDict d \<Rightarrow>
          (let record = \<lparr>access_token = dict_get_default d ''access_token'' (PStr ''''),
                         workspace_id = dict_get d ''workspace_id'',
                         workspace_name = dict_get d ''workspace_name'',
                         TokenRecord.created_at = now,
                         scope = dict_get d ''scope'',
                         raw = token_response\<rparr>
           in Inr (record, save token_store record))
      | _ \<Rightarrow> Inl (AttributeError ''get''))"

section \<open>The OAuth state store (notion\_oauth.py)\<close>

record OAuthState =
  state :: string
  created_at :: datetime
  expires_at :: datetime
  consumed_at :: "datetime option"
  principal_id :: "string option"

record InMemoryStateStore =
  states :: "string \<rightharpoonup> OAuthState"

definition InMemoryStateStore_init :: InMemoryStateStore where
  "InMemoryStateStore_init = \<lparr>states = Map.empty\<rparr>"

text \<open>
  \<open>now + timedelta(seconds=ttl_seconds)\<close>. The standard library bounds both values:
  a \<open>timedelta\<close> spans at most 999999999 days either way, and a \<open>datetime\<close> lies
  between the years 1 and 9999; outside them the constructor, or the addition, raises
  \<open>OverflowError\<close>.
\<close>

definition datetime_min :: datetime where
  "datetime_min = - 62135596800000000"

definition datetime_max :: datetime where
  "datetime_max = 253402300799999999"

definition timedelta_seconds :: "int \<Rightarrow> exn + int" where
  "timedelta_seconds seconds =
     (if \<bar>seconds div 86400\<bar> > 999999999 then Inl (OverflowError ''timedelta'')
      else Inr (seconds * 1000000))"

definition datetime_add :: "datetime \<Rightarrow> int \<Rightarrow> exn + datetime" where
  "datetime_add t delta =
     (if datetime_min \<le> t + delta \<and> t + delta \<le> datetime_max then Inr (t + delta)
      else Inl (OverflowError ''date value out of range''))"

text \<open>
  \<open>create\<close>: \<open>token\<close> is the value \<open>secrets.token_urlsafe(32)\<close> returns at this call and
  \<open>now\<close> the value of \<open>_utcnow()\<close>. The new record is stored under its token, over any
  record already there.
\<close>

definition create ::
  "InMemoryStateStore \<Rightarrow> string \<Rightarrow> int \<Rightarrow> string option \<Rightarrow> datetime
     \<Rightarrow> exn + (OAuthState \<times> InMemoryStateStore)" where
  "create self token ttl_seconds pid now =
     (case timedelta_seconds ttl_seconds of
        Inl e \<Rightarrow> Inl e
      | Inr delta \<Rightarrow>
          (case datetime_add now delta of
             Inl e \<Rightarrow> Inl e
           | Inr expires \<Rightarrow>
               (let record = \<lparr>state = token,
                              OAuthState.created_at = now,
                              expires_at = expires,
                              consumed_at = None,
                              principal_id = pid\<rparr>
                in Inr (record, self\<lparr>states := (states self)(token \<mapsto> record)\<rparr>))))"

text \<open>
  \<open>consume\<close> returns \<open>None\<close> on each of its three early returns and otherwise marks the
  record, which the dictionary shares with the caller, and returns it.
\<close>

definition consume ::
  "InMemoryStateStore \<Rightarrow> string \<Rightarrow> datetime \<Rightarrow> OAuthState option \<times> InMemoryStateStore" where
  "consume self st now =
     (case states self st of
        None \<Rightarrow> (None, self)
      | Some record \<Rightarrow>
          (if consumed_at record \<noteq> None then (None, self)
           else if expires_at record \<le> now then (None, self)
           else (let record' = record\<lparr>consumed_at := Some now\<rparr>
                 in (Some record', self\<lparr>states := (states self)(st \<mapsto> record')\<rparr>))))"

text \<open>
  Histories of the store: the calls made on it, each with the values the environment
  supplied (the random token, the clock). A \<open>create\<close> that raises leaves the store as
  it was.
\<close>

datatype store_call =
    Create string int "string option" datetime
  | Consume string datetime

fun run_call :: "InMemoryStateStore \<Rightarrow> store_call \<Rightarrow> InMemoryStateStore" where
  "run_call self (Create token ttl_seconds pid now) =
     (case create self token ttl_seconds pid now of
        Inl e \<Rightarrow> self
      | Inr (record, self') \<Rightarrow> self')"
| "run_call self (Consume st now) = snd (consume self st now)"

definition run_calls :: "InMemoryStateStore \<Rightarrow> store_call list \<Rightarrow> InMemoryStateStore" where
  "run_calls = foldl run_call"

fun creates :: "string \<Rightarrow> store_call \<Rightarrow> bool" where
  "creates tok (Create token ttl_seconds pid now) = (token = tok)"
| "creates tok (Consume st now) = False"

fun touches :: "string \<Rightarrow> store_call \<Rightarrow> bool" where
  "touches tok (Create token ttl_seconds pid now) = (token = tok)"
| "touches tok (Consume st now) = (st = tok)"

text \<open>The number of calls of a history that consume \<open>tok\<close> with success.\<close>

fun consume_successes :: "string \<Rightarrow> InMemoryStateStore \<Rightarrow> store_call list \<Rightarrow> nat" where
  "consume_successes tok self [] = 0"
| "consume_successes tok self (Create token ttl_seconds pid now # calls) =
     consume_successes tok (run_call self (Create token ttl_seconds pid now)) calls"
| "consume_successes tok self (Consume st now # calls) =
     (if st = tok \<and> fst (consume self st now) \<noteq> None then 1 else 0)
       + consume_successes tok (run_call self (Consume st now)) calls"

text \<open>A token is spent in a store that holds a consumed record for it.\<close>

definition spent :: "InMemoryStateStore \<Rightarrow> string \<Rightarrow> bool" where
  "spent s tok = (case states s tok of None \<Rightarrow> False | Some r \<Rightarrow> consumed_at r \<noteq> None)"

section \<open>The callback flow (notion\_oauth.py, server.py, notion.py)\<close>

text \<open>
  The two outbound calls of the flow are the environment's: \<open>exchange_token env code\<close>
  is what \<open>exchange_token(code)\<close> returns or raises (the POST to the token endpoint,
  \<open>raise_for_status\<close> and the JSON decoding of the body), \<open>smoke_test_search env t\<close>
  what the probe with access token \<open>t\<close> returns or raises. \<open>consume_now\<close> and
  \<open>store_now\<close> are the values of \<open>_utcnow()\<close> inside \<open>consume\<close> and \<open>store_token\<close>.
\<close>

record callback_env =
  exchange_token :: "string \<Rightarrow> exn + pyval"
  smoke_test_search :: "pyval \<Rightarrow> exn + pyval"
  consume_now :: datetime
  store_now :: datetime

text \<open>
  \<open>handle_callback\<close> on the module's two stores, \<open>STATE_STORE\<close> and \<open>TOKEN_STORE\<close>.
  The dictionary it returns is the pair of its two values.
\<close>

definition handle_callback ::
  "callback_env \<Rightarrow> string \<Rightarrow> string \<Rightarrow> InMemoryStateStore \<times> InMemoryTokenStore
     \<Rightarrow> (exn + (TokenRecord \<times> pyval)) \<times> (InMemoryStateStore \<times> InMemoryTokenStore)" where
  "handle_callback env code st stores =
     (case consume (fst stores) st (consume_now env) of
        (None, state_store) \<Rightarrow>
          (Inl (ValueError ''Invalid or expired OAuth state.''), (state_store, snd stores))
      | (Some state_record, state_store) \<Rightarrow>
          (case exchange_token env code of
             Inl e \<Rightarrow> (Inl e, (state_store, snd stores))
           | Inr token_response \<Rightarrow>
               (case store_token token_response (store_now env) (snd stores) of
                  Inl e \<Rightarrow> (Inl e, (state_store, snd stores))
                | Inr (token_record, token_store) \<Rightarrow>
                    (case smoke_test_search env (access_token token_record) of
                       Inl e \<Rightarrow> (Inl e, (state_store, token_store))
                     | Inr smoke_test \<Rightarrow>
                         (Inr (token_record, smoke_test), (state_store, token_store))))))"

text \<open>\<open>dataclasses.asdict\<close> of a \<open>TokenRecord\<close>: its fields in their order.\<close>

definition asdict :: "TokenRecord \<Rightarrow> pydict" where
  "asdict token =
     [(''access_token'', access_token token),
      (''workspace_id'', workspace_id token),
      (''workspace_name'', workspace_name token),
      (''created_at'', PDateTime (TokenRecord.created_at token)),
      (''scope'', scope token),
      (''raw'', raw token)]"

text \<open>
  \<open>_serialize_token\<close>, the same function in server.py and in notion.py. \<open>isoformat\<close>
  is the standard library's \<open>datetime.isoformat\<close>, a parameter of the model; only a
  \<open>datetime\<close> has it.
\<close>

definition serialize_token :: "(datetime \<Rightarrow> string) \<Rightarrow> TokenRecord \<Rightarrow> exn + pydict" where
  "serialize_token isoformat token =
     (let data = asdict token;
          created = dict_get data ''created_at''
      in (case created of
            PNone \<Rightarrow> Inr (dict_pop (dict_pop data ''access_token'') ''raw'')
          | PDateTime t \<Rightarrow>
              Inr (dict_pop (dict_pop (dict_set data ''created_at'' (PStr (isoformat t)))
                     ''access_token'') ''raw'')
          | _ \<Rightarrow> Inl (AttributeError ''isoformat'')))"

text \<open>
  A request as the handlers read it: its path, its headers (by lower-case name) and
  its query parameters, and the two attributes the middleware attaches to
  \<open>request.state\<close>. A \<open>JSONResponse\<close> is its content and status code.
\<close>

record PrincipalRecord =
  iss :: pyval
  sub :: pyval
  created_at :: datetime

record Request =
  path :: string
  headers :: "string \<rightharpoonup> string"
  query_params :: "string \<rightharpoonup> string"
  principal :: "PrincipalRecord option"
  jwt_payload :: "pydict option"

record Response =
  content :: pyval
  status_code :: nat

definition JSONResponse :: "pydict \<Rightarrow> nat \<Rightarrow> Response" where
  "JSONResponse body status = \<lparr>content = PDict body, status_code = status\<rparr>"

text \<open>
  \<open>notion_oauth_callback\<close>, the same handler in server.py and in notion.py.
  \<open>query_params.get\<close> gives \<open>None\<close> or a string, and \<open>not code\<close> holds of \<open>None\<close> and of
  the empty string alike. Only a \<open>ValueError\<close> is caught; any other exception leaves
  the handler. The handler also writes the access token to its log, which is no part
  of the response.
\<close>

definition notion_oauth_callback ::
  "callback_env \<Rightarrow> (datetime \<Rightarrow> string) \<Rightarrow> Request
     \<Rightarrow> InMemoryStateStore \<times> InMemoryTokenStore
     \<Rightarrow> (exn + Response) \<times> (InMemoryStateStore \<times> InMemoryTokenStore)" where
  "notion_oauth_callback env isoformat request stores =
     (case (query_params request ''code'', query_params request ''state'') of
        (Some code, Some st) \<Rightarrow>
          (if code = [] \<or> st = [] then
             (Inr (JSONResponse [(''error'', PStr ''Missing code or state'')] 400), stores)
           else
             (case handle_callback env code st stores of
                (Inl (ValueError msg), stores') \<Rightarrow>
                  (Inr (JSONResponse [(''error'', PStr msg)] 400), stores')
              | (Inl e, stores') \<Rightarrow> (Inl e, stores')
              | (Inr (token, smoke_test), stores') \<Rightarrow>
                  (case serialize_token isoformat token of
                     Inl e \<Rightarrow> (Inl e, stores')
                   | Inr token_payload \<Rightarrow>
                       (Inr (JSONResponse [(''token'', PDict token_payload),
                                           (''smoke_test'', smoke_test)] 200), stores'))))
      | _ \<Rightarrow> (Inr (JSONResponse [(''error'', PStr ''Missing code or state'')] 400), stores))"

section \<open>The principal store (auth.py)\<close>

record InMemoryPrincipalStore =
  records :: "string \<rightharpoonup> PrincipalRecord"

definition InMemoryPrincipalStore_init :: InMemoryPrincipalStore where
  "InMemoryPrincipalStore_init = \<lparr>records = Map.empty\<rparr>"

text \<open>
  The f-string \<open>f"{iss}|{sub}"\<close> puts a string in as it is; \<open>py_str\<close> is Python's
  \<open>str\<close> on the values that are not strings (the claims of a token are of type \<open>Any\<close>).
\<close>

definition format_value :: "(pyval \<Rightarrow> string) \<Rightarrow> pyval \<Rightarrow> string" where
  "format_value py_str v = (case v of PStr s \<Rightarrow> s | _ \<Rightarrow> py_str v)"

definition get_or_create ::
  "(pyval \<Rightarrow> string) \<Rightarrow> InMemoryPrincipalStore \<Rightarrow> pyval \<Rightarrow> pyval \<Rightarrow> datetime
     \<Rightarrow> PrincipalRecord \<times> InMemoryPrincipalStore" where
  "get_or_create py_str self iss_value sub_value now =
     (let key = format_value py_str iss_value @ ''|'' @ format_value py_str sub_value
      in (case records self key of
            None \<Rightarrow>
              (let record = \<lparr>iss = iss_value, sub = sub_value,
                              PrincipalRecord.created_at = now\<rparr>
               in (record, self\<lparr>records := (records self)(key \<mapsto> record)\<rparr>))
          | Some record \<Rightarrow> (record, self)))"


section \<open>The key-set cache (auth.py)\<close>

record SupabaseJwksClient =
  jwks_url :: string
  ttl_seconds :: int
  jwks :: pyval
  fetched_at :: "real option"

text \<open>
  The client and the network it talks to: \<open>requests\<close> counts the GETs sent to the
  key-set URL so far, and the network \<open>net\<close> gives the outcome of the \<open>n\<close>-th of them,
  the decoded body or the exception of the transport, of \<open>raise_for_status\<close> or of the
  decoding. \<open>time.time()\<close> is a real number of seconds.
\<close>

record jwks_world =
  client :: SupabaseJwksClient
  requests :: nat

definition get_jwks ::
  "(nat \<Rightarrow> exn + pyval) \<Rightarrow> real \<Rightarrow> jwks_world \<Rightarrow> (exn + pyval) \<times> jwks_world" where
  "get_jwks net now w =
     (let self = client w in
      if truthy (jwks self)
         \<and> (case fetched_at self of
               None \<Rightarrow> False
             | Some t \<Rightarrow> t \<noteq> 0 \<and> now - t < real_of_int (ttl_seconds self))
      then (Inr (jwks self), w)
      else (case net (requests w) of
              Inl e \<Rightarrow> (Inl e, w\<lparr>requests := Suc (requests w)\<rparr>)
            | Inr body \<Rightarrow>
                (Inr body, \<lparr>client = self\<lparr>jwks := body, fetched_at := Some now\<rparr>,
                            requests = Suc (requests w)\<rparr>)))"

text \<open>
  \<open>for key in jwks.get("keys", [])\<close>: a list gives its elements, a dictionary its keys,
  a string its characters; nothing else can be iterated.
\<close>

definition py_iter :: "pyval \<Rightarrow> exn + pyval list" where
  "py_iter v =
     (case v of
        PList xs \<Rightarrow> Inr xs
      | PDict d \<Rightarrow> Inr (map (\<lambda>kv. PStr (fst kv)) d)
      | PStr s \<Rightarrow> Inr (map (\<lambda>c. PStr [c]) s)
      | _ \<Rightarrow> Inl (TypeError ''object is not iterable''))"

text \<open>
  The loop of \<open>get_key\<close>. \<open>from_jwk\<close> is the JWT library's
  \<open>RSAAlgorithm.from_jwk\<close>. The \<open>kid\<close> searched for is a string (the library refuses a
  header whose \<open>kid\<close> is not), so Python's \<open>==\<close> is equality of values.
\<close>

fun find_key :: "(pyval \<Rightarrow> exn + 'k) \<Rightarrow> pyval list \<Rightarrow> pyval \<Rightarrow> exn + 'k" where
  "find_key from_jwk [] kid = Inl (ValueError ''No matching JWKS key found.'')"
| "find_key from_jwk (key # keys) kid =
     (case key of
        PDict d \<Rightarrow>
          (if dict_get d ''kid'' = kid then from_jwk key else find_key from_jwk keys kid)
      | _ \<Rightarrow> Inl (AttributeError ''get''))"

definition get_key ::
  "(pyval \<Rightarrow> exn + 'k) \<Rightarrow> (nat \<Rightarrow> exn + pyval) \<Rightarrow> real \<Rightarrow> pyval \<Rightarrow> jwks_world
     \<Rightarrow> (exn + 'k) \<times> jwks_world" where
  "get_key from_jwk net now kid w =
     (case get_jwks net now w of
        (Inl e, w') \<Rightarrow> (Inl e, w')
      | (Inr key_set, w') \<Rightarrow>
          (if \<not> truthy key_set then (Inl (ValueError ''No JWKS available.''), w')
           else (case key_set of
                   PDict d \<Rightarrow>
                     (case py_iter (dict_get_default d ''keys'' (PList [])) of
                        Inl e \<Rightarrow> (Inl e, w')
                      | Inr keys \<Rightarrow> (find_key from_jwk keys kid, w'))
                 | _ \<Rightarrow> (Inl (AttributeError ''get''), w'))))"

text \<open>
  A key set holds a \<open>kid\<close> when one of the elements the loop of \<open>get_key\<close> goes
  through is a dictionary with that \<open>kid\<close>.
\<close>

definition kid_in_key_set :: "pyval \<Rightarrow> pyval \<Rightarrow> bool" where
  "kid_in_key_set key_set kid =
     (case key_set of
        PDict d \<Rightarrow>
          (case py_iter (dict_get_default d ''keys'' (PList [])) of
             Inl e \<Rightarrow> False
           | Inr keys \<Rightarrow>
               list_ex (\<lambda>key. case key of PDict kd \<Rightarrow> dict_get kd ''kid'' = kid | _ \<Rightarrow> False) keys)
      | _ \<Rightarrow> False)"

section \<open>Token verification and request admission (auth.py)\<close>

text \<open>
  What the gateway is configured with and what it calls: the three functions of the
  JWT library it uses (\<open>jwt.get_unverified_header\<close>, \<open>RSAAlgorithm.from_jwk\<close> and
  \<open>jwt.decode\<close> with its key, algorithms, audience and issuer), the network of the
  key-set URL, Python's \<open>str\<close>, and the configured audience and issuer.
\<close>

record 'k auth_env =
  get_unverified_header :: "string \<Rightarrow> exn + pydict"
  from_jwk :: "pyval \<Rightarrow> exn + 'k"
  decode :: "string \<Rightarrow> 'k \<Rightarrow> string list \<Rightarrow> string \<Rightarrow> string \<Rightarrow> exn + pydict"
  jwks_net :: "nat \<Rightarrow> exn + pyval"
  py_str :: "pyval \<Rightarrow> string"
  audience :: string
  issuer :: string

definition verify_jwt ::
  "'k auth_env \<Rightarrow> real \<Rightarrow> string \<Rightarrow> jwks_world \<Rightarrow> (exn + pydict) \<times> jwks_world" where
  "verify_jwt env now token w =
     (case get_unverified_header env token of
        Inl e \<Rightarrow> (Inl e, w)
      | Inr hdrs \<Rightarrow>
          (let kid = dict_get hdrs ''kid'' in
           if \<not> truthy kid then (Inl (ValueError ''JWT missing kid header.''), w)
           else (case get_key (from_jwk env) (jwks_net env) now kid w of
                   (Inl e, w') \<Rightarrow> (Inl e, w')
                 | (Inr key, w') \<Rightarrow>
                     (decode env token key [''RS256''] (audience env) (issuer env), w'))))"

text \<open>
  The JWT library is no part of the repository. \<open>jwt_library_checks\<close> is what its
  \<open>decode\<close> is documented to check and the verification relies on: it returns a claim
  set only for a token whose header names one of the algorithms passed, whose \<open>iss\<close>
  claim is the issuer passed and whose \<open>aud\<close> claim is, or holds, the audience passed.
\<close>

definition audience_matches :: "pydict \<Rightarrow> string \<Rightarrow> bool" where
  "audience_matches payload aud =
     (case dict_get payload ''aud'' of
        PStr a \<Rightarrow> a = aud
      | PList xs \<Rightarrow> PStr aud \<in> set xs
      | _ \<Rightarrow> False)"

definition jwt_library_checks :: "'k auth_env \<Rightarrow> bool" where
  "jwt_library_checks env =
     (\<forall>token key algorithms aud iss_expected payload.
        decode env token key algorithms aud iss_expected = Inr payload \<longrightarrow>
          (\<exists>hdrs alg. get_unverified_header env token = Inr hdrs
                       \<and> dict_get hdrs ''alg'' = PStr alg \<and> alg \<in> set algorithms)
          \<and> dict_get payload ''iss'' = PStr iss_expected
          \<and> audience_matches payload aud)"

fun startswith :: "string \<Rightarrow> string \<Rightarrow> bool" where
  "startswith s [] = True"
| "startswith [] (p # ps) = False"
| "startswith (c # cs) (p # ps) = (c = p \<and> startswith cs ps)"

definition is_public_path :: "string \<Rightarrow> string list \<Rightarrow> bool" where
  "is_public_path p public_paths = list_ex (\<lambda>public_path. startswith p public_path) public_paths"

text \<open>\<open>str(exc)\<close>: the message of the exception.\<close>

fun exn_str :: "exn \<Rightarrow> string" where
  "exn_str (ValueError msg) = msg"
| "exn_str (AttributeError msg) = msg"
| "exn_str (TypeError msg) = msg"
| "exn_str (OverflowError msg) = msg"
| "exn_str (OtherError msg) = msg"

text \<open>
  \<open>dispatch\<close> either hands the request on (\<open>call_next\<close>) or answers it itself. Its
  state is the key-set client with its network and the principal store; \<open>now\<close> is
  \<open>time.time()\<close> and \<open>utcnow\<close> the value of \<open>_utcnow()\<close>. After the prefix
  \<open>Bearer \<close> the token is what follows the first space of the header.
\<close>

datatype dispatch_result = CallNext Request | Return Response

definition dispatch ::
  "'k auth_env \<Rightarrow> string list \<Rightarrow> real \<Rightarrow> datetime \<Rightarrow> Request
     \<Rightarrow> jwks_world \<times> InMemoryPrincipalStore
     \<Rightarrow> dispatch_result \<times> (jwks_world \<times> InMemoryPrincipalStore)" where
  "dispatch env public_paths now utcnow request g =
     (if is_public_path (path request) public_paths then (CallNext request, g)
      else
        (let auth_header = (case headers request ''authorization'' of
                              None \<Rightarrow> '''' | Some h \<Rightarrow> h)
         in if \<not> startswith auth_header ''Bearer '' then
              (Return (JSONResponse [(''error'', PStr ''Missing Bearer token.'')] 401), g)
            else
              (let token = drop 7 auth_header in
               case verify_jwt env now token (fst g) of
                 (Inl exc, w') \<Rightarrow>
                   (Return (JSONResponse
                      [(''error'', PStr (''Invalid token: '' @ exn_str exc))] 401),
                    (w', snd g))
               | (Inr payload, w') \<Rightarrow>
                   (let iss_value = dict_get_default payload ''iss'' (PStr '''');
                        sub_value = dict_get_default payload ''sub'' (PStr '''')
                    in if \<not> truthy iss_value \<or> \<not> truthy sub_value then
                         (Return (JSONResponse
                            [(''error'', PStr ''Token missing iss/sub.'')] 401),
                          (w', snd g))
                       else
                         (case get_or_create (py_str env) (snd g) iss_value sub_value utcnow of
                            (record, principal_store) \<Rightarrow>
                              (CallNext (request\<lparr>principal := Some record,
                                                   jwt_payload := Some payload\<rparr>),
                               (w', principal_store)))))))"

section \<open>Concrete inputs\<close>

text \<open>
  A pending state, a callback request and three environments of the callback flow: one
  whose provider rejects the code, one whose probe fails, one where both calls succeed.
\<close>

definition failing_exchange_env :: callback_env where
  "failing_exchange_env =
     \<lparr>exchange_token = (\<lambda>code. Inl (OtherError ''401 Unauthorized'')),
      smoke_test_search = (\<lambda>t. Inr (PDict [(''results'', PList [])])),
      consume_now = 100000000,
      store_now = 100000001\<rparr>"

definition failing_probe_env :: callback_env where
  "failing_probe_env =
     \<lparr>exchange_token = (\<lambda>code. Inr (PDict [(''access_token'', PStr ''secret''),
                                              (''workspace_id'', PStr ''w1'')])),
      smoke_test_search = (\<lambda>t. Inl (OtherError ''503 Service Unavailable'')),
      consume_now = 100000000,
      store_now = 100000001\<rparr>"

definition working_env :: callback_env where
  "working_env =
     \<lparr>exchange_token = (\<lambda>code. Inr (PDict [(''access_token'', PStr ''secret''),
                                              (''workspace_id'', PStr ''w1'')])),
      smoke_test_search = (\<lambda>t. Inr (PDict [(''results'', PList [])])),
      consume_now = 100000000,
      store_now = 100000001\<rparr>"

definition pending_state :: OAuthState where
  "pending_state = \<lparr>state = ''S1'', OAuthState.created_at = 0, expires_at = 600000000,
                     consumed_at = None, principal_id = None\<rparr>"

definition callback_request :: "string \<Rightarrow> string \<Rightarrow> Request" where
  "callback_request code st =
     \<lparr>path = ''/notion/oauth/callback'', headers = Map.empty,
      query_params = [''code'' \<mapsto> code, ''state'' \<mapsto> st],
      principal = None, jwt_payload = None\<rparr>"

definition saved_record :: TokenRecord where
  "saved_record =
     \<lparr>access_token = PStr ''secret'', workspace_id = PStr ''w1'', workspace_name = PNone,
      TokenRecord.created_at = 100000001, scope = PNone,
      raw = PDict [(''access_token'', PStr ''secret''), (''workspace_id'', PStr ''w1'')]\<rparr>"



text \<open>
  A gateway configuration with a stand-in for the JWT library that knows five tokens:
  \<open>good\<close>, \<open>nosub\<close> (verifies, with an empty \<open>sub\<close>), \<open>unsigned\<close> (algorithm \<open>none\<close>),
  \<open>nokid\<close> and \<open>otherkey\<close> (a \<open>kid\<close> the key set does not hold).
\<close>

definition demo_key_set :: pyval where
  "demo_key_set = PDict [(''keys'', PList [PDict [(''kid'', PStr ''k1''), (''kty'', PStr ''RSA'')]])]"

definition demo_header :: "string \<Rightarrow> exn + pydict" where
  "demo_header token =
     (if token = ''good'' \<or> token = ''nosub'' then
        Inr [(''alg'', PStr ''RS256''), (''kid'', PStr ''k1'')]
      else if token = ''unsigned'' then Inr [(''alg'', PStr ''none''), (''kid'', PStr ''k1'')]
      else if token = ''nokid'' then Inr [(''alg'', PStr ''RS256'')]
      else if token = ''otherkey'' then Inr [(''alg'', PStr ''RS256''), (''kid'', PStr ''k9'')]
      else Inl (OtherError ''Not enough segments''))"

definition demo_decode ::
  "string \<Rightarrow> pyval \<Rightarrow> string list \<Rightarrow> string \<Rightarrow> string \<Rightarrow> exn + pydict" where
  "demo_decode token key algorithms aud iss_expected =
     (if ''RS256'' \<in> set algorithms \<and> aud = ''authenticated''
         \<and> iss_expected = ''https://p.supabase.co/auth/v1''
         \<and> key = PDict [(''kid'', PStr ''k1''), (''kty'', PStr ''RSA'')]
      then (if token = ''good'' then
              Inr [(''iss'', PStr ''https://p.supabase.co/auth/v1''), (''sub'', PStr ''user-1''),
                   (''aud'', PStr ''authenticated'')]
            else if token = ''nosub'' then
              Inr [(''iss'', PStr ''https://p.supabase.co/auth/v1''), (''sub'', PStr ''''),
                   (''aud'', PStr ''authenticated'')]
            else Inl (OtherError ''Signature verification failed''))
      else Inl (OtherError ''Invalid token''))"

definition demo_auth_env :: "pyval auth_env" where
  "demo_auth_env =
     \<lparr>get_unverified_header = demo_header,
      from_jwk = Inr,
      decode = demo_decode,
      jwks_net = (\<lambda>n. Inr demo_key_set),
      py_str = (\<lambda>v. ''?''),
      audience = ''authenticated'',
      issuer = ''https://p.supabase.co/auth/v1''\<rparr>"

definition demo_world :: jwks_world where
  "demo_world =
     \<lparr>client = \<lparr>jwks_url = ''https://p.supabase.co/auth/v1/.well-known/jwks.json'',
                 ttl_seconds = 3600, jwks = PNone, fetched_at = None\<rparr>,
      requests = 0\<rparr>"

definition demo_request :: "string \<Rightarrow> (string \<rightharpoonup> string) \<Rightarrow> Request" where
  "demo_request p hs =
     \<lparr>path = p, headers = hs, query_params = Map.empty, principal = None, jwt_payload = None\<rparr>"

section \<open>Properties\<close>

subsection \<open>The token store keeps the last record saved\<close>

lemma get_save: "get (save s r) = Some r"
  by (simp add: get_def save_def)

lemma save_save: "save (save s r) r' = save s r'"
  by (simp add: save_def)

lemma foldl_save_snoc: "foldl save s (rs @ [r]) = save s r"
proof (induction rs arbitrary: s)
  case Nil
  show ?case by simp
next
  case (Cons a rs)
  have "foldl save s ((a # rs) @ [r]) = foldl save (save s a) (rs @ [r])"
    by simp
  also have "\<dots> = save (save s a) r"
    by (rule Cons.IH)
  also have "\<dots> = save s r"
    by (rule save_save)
  finally show ?case .
qed

text \<open>
  C9. The token store holds at most one record, the last one saved: a fresh store
  returns nothing, after any sequence of saves \<open>get\<close> returns the record of the most
  recent one, and \<open>store_token\<close> on a provider response saves the record it builds over
  whatever the store held.
\<close>

theorem token_store_last_write_wins:
  "get InMemoryTokenStore_init = None
   \<and> get (foldl save s []) = get s
   \<and> get (foldl save s (rs @ [r])) = Some r
   \<and> (\<exists>record. store_token (PDict d) now s = Inr (record, save s record)
         \<and> get (save s record) = Some record
         \<and> raw record = PDict d
         \<and> TokenRecord.created_at record = now)"
proof -
  have a: "get InMemoryTokenStore_init = None"
    by (simp add: get_def InMemoryTokenStore_init_def)
  have b: "get (foldl save s (rs @ [r])) = Some r"
    by (simp only: foldl_save_snoc get_save)
  have c: "\<exists>record. store_token (PDict d) now s = Inr (record, save s record)
         \<and> get (save s record) = Some record
         \<and> raw record = PDict d
         \<and> TokenRecord.created_at record = now"
    by (simp add: store_token_def Let_def get_save)
  from a b c show ?thesis by simp
qed

subsection \<open>A state is consumed at most once\<close>

lemma run_calls_Nil: "run_calls s [] = s" by (simp add: run_calls_def)
lemma run_calls_Cons: "run_calls s (c # cs) = run_calls (run_call s c) cs" by (simp add: run_calls_def)

lemma run_call_untouched:
  "\<not> touches tok c \<Longrightarrow> states (run_call s c) tok = states s tok"
  by (cases c) (auto simp: create_def consume_def Let_def split: sum.splits option.splits)

lemma run_calls_untouched:
  "\<forall>c\<in>set cs. \<not> touches tok c \<Longrightarrow> states (run_calls s cs) tok = states s tok"
  by (induction cs arbitrary: s) (simp_all add: run_calls_Nil run_calls_Cons run_call_untouched)

lemma consume_spent: "spent s tok \<Longrightarrow> consume s tok now = (None, s)"
  by (auto simp: spent_def consume_def split: option.splits)

lemma run_call_spent:
  "spent s tok \<Longrightarrow> \<not> creates tok c \<Longrightarrow> spent (run_call s c) tok"
  by (cases c) (auto simp: spent_def create_def consume_def Let_def split: sum.splits option.splits)

lemma run_calls_spent:
  "spent s tok \<Longrightarrow> \<forall>c\<in>set cs. \<not> creates tok c \<Longrightarrow> spent (run_calls s cs) tok"
  by (induction cs arbitrary: s) (simp_all add: run_calls_Nil run_calls_Cons run_call_spent)

lemma consume_Some_spent: "fst (consume s tok now) \<noteq> None \<Longrightarrow> spent (snd (consume s tok now)) tok"
  by (auto simp: spent_def consume_def Let_def split: option.splits if_splits)

lemma successes_spent:
  "spent s tok \<Longrightarrow> \<forall>c\<in>set cs. \<not> creates tok c \<Longrightarrow> consume_successes tok s cs = 0"
proof (induction cs arbitrary: s)
  case Nil show ?case by simp
next
  case (Cons c cs)
  have sp: "spent (run_call s c) tok" using Cons.prems by (simp add: run_call_spent)
  have rest: "consume_successes tok (run_call s c) cs = 0" using Cons.IH[OF sp] Cons.prems by simp
  show ?case
  proof (cases c)
    case (Create a b c' d) with rest show ?thesis by simp
  next
    case (Consume st now)
    with rest Cons.prems(1) show ?thesis by (auto simp: consume_spent)
  qed
qed

lemma successes_le_1:
  "\<forall>c\<in>set cs. \<not> creates tok c \<Longrightarrow> consume_successes tok s cs \<le> 1"
proof (induction cs arbitrary: s)
  case Nil show ?case by simp
next
  case (Cons c cs)
  have rest: "consume_successes tok (run_call s c) cs \<le> 1" using Cons.IH Cons.prems by simp
  show ?case
  proof (cases c)
    case (Create a b c' d) with rest show ?thesis by simp
  next
    case (Consume st now)
    show ?thesis
    proof (cases "st = tok \<and> fst (consume s st now) \<noteq> None")
      case True
      then have "spent (run_call s c) tok" using Consume consume_Some_spent[of s tok now] by auto
      then have "consume_successes tok (run_call s c) cs = 0" using Cons.prems by (simp add: successes_spent)
      with True Consume show ?thesis by simp
    next
      case False with rest Consume show ?thesis by auto
    qed
  qed
qed

lemma create_result:
  "create s tok ttl pid t0 = Inr (r, s1) \<Longrightarrow>
     states s1 tok = Some r \<and> consumed_at r = None \<and> state r = tok \<and> OAuthState.created_at r = t0 \<and> expires_at r = t0 + ttl * 1000000 \<and> principal_id r = pid"
  by (auto simp: create_def timedelta_seconds_def datetime_add_def Let_def split: if_splits)

text \<open>
  C1. Let \<open>create\<close> issue the state \<open>tok\<close> with record \<open>r\<close>. As long as the token is not
  issued a second time: the first \<open>consume\<close> of \<open>tok\<close>, at a time before \<open>expires_at r\<close>,
  returns the record with \<open>consumed_at\<close> set to that time and stores it; after a
  successful \<open>consume\<close> every later \<open>consume\<close> of \<open>tok\<close> returns \<open>None\<close> and changes
  nothing; a \<open>consume\<close> at or after the deadline returns \<open>None\<close> although the state was
  never consumed; and no history of calls consumes \<open>tok\<close> with success more than once.
\<close>

theorem state_consumed_at_most_once:
  assumes "create s tok ttl pid t0 = Inr (r, s1)"
  shows "states s1 tok = Some r \<and> consumed_at r = None \<and> expires_at r = t0 + ttl * 1000000
    \<and> ((\<forall>c\<in>set pre. \<not> touches tok c) \<and> now < expires_at r \<longrightarrow>
          consume (run_calls s1 pre) tok now =
            (Some (r\<lparr>consumed_at := Some now\<rparr>),
             (run_calls s1 pre)\<lparr>states := (states (run_calls s1 pre))(tok \<mapsto> r\<lparr>consumed_at := Some now\<rparr>)\<rparr>))
    \<and> ((\<forall>c\<in>set post. \<not> creates tok c) \<and> fst (consume s2 tok t2) \<noteq> None \<longrightarrow>
          consume (run_calls (snd (consume s2 tok t2)) post) tok later =
            (None, run_calls (snd (consume s2 tok t2)) post))
    \<and> ((\<forall>c\<in>set pre'. \<not> touches tok c) \<and> expires_at r \<le> late \<longrightarrow>
          consume (run_calls s1 pre') tok late = (None, run_calls s1 pre'))
    \<and> ((\<forall>c\<in>set calls. \<not> creates tok c) \<longrightarrow> consume_successes tok s1 calls \<le> 1)"
proof -
  note cr = create_result[OF assms]
  have p1: "states s1 tok = Some r \<and> consumed_at r = None \<and> expires_at r = t0 + ttl * 1000000"
    using cr by simp
  have p2: "(\<forall>c\<in>set pre. \<not> touches tok c) \<and> now < expires_at r \<longrightarrow>
          consume (run_calls s1 pre) tok now =
            (Some (r\<lparr>consumed_at := Some now\<rparr>),
             (run_calls s1 pre)\<lparr>states := (states (run_calls s1 pre))(tok \<mapsto> r\<lparr>consumed_at := Some now\<rparr>)\<rparr>)"
  proof (intro impI, elim conjE)
    assume a: "\<forall>c\<in>set pre. \<not> touches tok c" and b: "now < expires_at r"
    have "states (run_calls s1 pre) tok = Some r" using run_calls_untouched[OF a] cr by simp
    then show "consume (run_calls s1 pre) tok now =
            (Some (r\<lparr>consumed_at := Some now\<rparr>),
             (run_calls s1 pre)\<lparr>states := (states (run_calls s1 pre))(tok \<mapsto> r\<lparr>consumed_at := Some now\<rparr>)\<rparr>)"
      using b cr by (simp add: consume_def Let_def)
  qed
  have p3: "(\<forall>c\<in>set post. \<not> creates tok c) \<and> fst (consume s2 tok t2) \<noteq> None \<longrightarrow>
          consume (run_calls (snd (consume s2 tok t2)) post) tok later =
            (None, run_calls (snd (consume s2 tok t2)) post)"
    by (intro impI, elim conjE) (simp add: consume_spent run_calls_spent consume_Some_spent)
  have p4: "(\<forall>c\<in>set pre'. \<not> touches tok c) \<and> expires_at r \<le> late \<longrightarrow>
          consume (run_calls s1 pre') tok late = (None, run_calls s1 pre')"
  proof (intro impI, elim conjE)
    assume a: "\<forall>c\<in>set pre'. \<not> touches tok c" and b: "expires_at r \<le> late"
    have "states (run_calls s1 pre') tok = Some r" using run_calls_untouched[OF a] cr by simp
    then show "consume (run_calls s1 pre') tok late = (None, run_calls s1 pre')"
      using b by (simp add: consume_def)
  qed
  have p5: "(\<forall>c\<in>set calls. \<not> creates tok c) \<longrightarrow> consume_successes tok s1 calls \<le> 1"
    using successes_le_1[of calls tok s1] by blast
  from p1 p2 p3 p4 p5 show ?thesis by blast
qed

theorem state_consumed_at_most_once_witness:
  "create InMemoryStateStore_init ''S1'' 600 None 0 =
     Inr (\<lparr>state = ''S1'', OAuthState.created_at = 0, expires_at = 600000000,
            consumed_at = None, principal_id = None\<rparr>,
          \<lparr>states = [''S1'' \<mapsto> \<lparr>state = ''S1'', OAuthState.created_at = 0, expires_at = 600000000,
            consumed_at = None, principal_id = None\<rparr>]\<rparr>)
   \<and> fst (consume (run_calls \<lparr>states = [''S1'' \<mapsto> \<lparr>state = ''S1'', OAuthState.created_at = 0,
            expires_at = 600000000, consumed_at = None, principal_id = None\<rparr>]\<rparr>
          [Create ''S2'' 600 None 5]) ''S1'' 100000000) =
       Some \<lparr>state = ''S1'', OAuthState.created_at = 0, expires_at = 600000000,
            consumed_at = Some 100000000, principal_id = None\<rparr>
   \<and> fst (consume (run_calls (snd (consume \<lparr>states = [''S1'' \<mapsto> \<lparr>state = ''S1'',
            OAuthState.created_at = 0, expires_at = 600000000, consumed_at = None,
            principal_id = None\<rparr>]\<rparr> ''S1'' 100000000))
          [Consume ''S1'' 100000001, Create ''S2'' 600 None 100000002]) ''S1'' 100000003) = None
   \<and> fst (consume (run_calls \<lparr>states = [''S1'' \<mapsto> \<lparr>state = ''S1'', OAuthState.created_at = 0,
            expires_at = 600000000, consumed_at = None, principal_id = None\<rparr>]\<rparr>
          [Create ''S2'' 600 None 5]) ''S1'' 601000000) = None
   \<and> consume_successes ''S1'' \<lparr>states = [''S1'' \<mapsto> \<lparr>state = ''S1'', OAuthState.created_at = 0,
            expires_at = 600000000, consumed_at = None, principal_id = None\<rparr>]\<rparr>
          [Consume ''S1'' 100000000, Consume ''S1'' 100000001] \<le> 1"
proof -
  let ?R = "\<lparr>state = ''S1'', OAuthState.created_at = 0, expires_at = 600000000,
            consumed_at = None, principal_id = None\<rparr>"
  let ?S = "\<lparr>states = [''S1'' \<mapsto> ?R]\<rparr>"
  have c: "create InMemoryStateStore_init ''S1'' 600 None 0 = Inr (?R, ?S)"
    by (simp add: create_def timedelta_seconds_def datetime_add_def datetime_min_def
        datetime_max_def InMemoryStateStore_init_def Let_def)
  have h1: "\<forall>c\<in>set [Create ''S2'' 600 None 5]. \<not> touches ''S1'' c" by simp
  have h2: "(100000000::int) < expires_at ?R" by simp
  have h3: "\<forall>c\<in>set [Consume ''S1'' 100000001, Create ''S2'' 600 None 100000002]. \<not> creates ''S1'' c"
    by simp
  have h4: "fst (consume ?S ''S1'' 100000000) \<noteq> None" by (simp add: consume_def Let_def)
  have h5: "expires_at ?R \<le> (601000000::int)" by simp
  have h6: "\<forall>c\<in>set [Consume ''S1'' 100000000, Consume ''S1'' 100000001]. \<not> creates ''S1'' c"
    by simp
  note t = state_consumed_at_most_once[OF c,
      of "[Create ''S2'' 600 None 5]" 100000000
         "[Consume ''S1'' 100000001, Create ''S2'' 600 None 100000002]" ?S 100000000 100000003
         "[Create ''S2'' 600 None 5]" 601000000
         "[Consume ''S1'' 100000000, Consume ''S1'' 100000001]"]
  have a2: "fst (consume (run_calls ?S [Create ''S2'' 600 None 5]) ''S1'' 100000000) =
       Some (?R\<lparr>consumed_at := Some 100000000\<rparr>)"
    using t h1 h2 by simp
  have a3: "fst (consume (run_calls (snd (consume ?S ''S1'' 100000000))
          [Consume ''S1'' 100000001, Create ''S2'' 600 None 100000002]) ''S1'' 100000003) = None"
    using t h3 h4 by simp
  have a4: "fst (consume (run_calls ?S [Create ''S2'' 600 None 5]) ''S1'' 601000000) = None"
    using t h1 h5 by simp
  have a5: "consume_successes ''S1'' ?S [Consume ''S1'' 100000000, Consume ''S1'' 100000001] \<le> 1"
    using t h6 by blast
  from c a2 a3 a4 a5 show ?thesis by simp
qed

subsection \<open>Facts about the callback flow\<close>

lemma consume_None_iff:
  "(fst (consume s st now) = None) =
     (states s st = None \<or> (\<exists>r. states s st = Some r \<and> (consumed_at r \<noteq> None \<or> expires_at r \<le> now)))"
  by (auto simp: consume_def Let_def split: option.splits)

lemma consume_None_unchanged: "fst (consume s st now) = None \<Longrightarrow> consume s st now = (None, s)"
  by (auto simp: consume_def Let_def split: option.splits if_splits)

lemma handle_callback_consume_fails:
  "fst (consume (fst stores) st (consume_now env)) = None \<Longrightarrow>
     handle_callback env code st stores = (Inl (ValueError ''Invalid or expired OAuth state.''), stores)"
  using consume_None_unchanged[of "fst stores" st "consume_now env"]
  by (simp add: handle_callback_def)

lemma handle_callback_exchange_fails:
  "consume (fst stores) st (consume_now env) = (Some r, ss) \<Longrightarrow> exchange_token env code = Inl e \<Longrightarrow>
     handle_callback env code st stores = (Inl e, (ss, snd stores))"
  by (simp add: handle_callback_def)

lemma handle_callback_store_fails:
  "consume (fst stores) st (consume_now env) = (Some r, ss) \<Longrightarrow> exchange_token env code = Inr resp \<Longrightarrow>
   store_token resp (store_now env) (snd stores) = Inl e \<Longrightarrow>
     handle_callback env code st stores = (Inl e, (ss, snd stores))"
  by (simp add: handle_callback_def)

lemma handle_callback_probe_fails:
  "consume (fst stores) st (consume_now env) = (Some r, ss) \<Longrightarrow> exchange_token env code = Inr resp \<Longrightarrow>
   store_token resp (store_now env) (snd stores) = Inr (tr, ts) \<Longrightarrow>
   smoke_test_search env (access_token tr) = Inl e \<Longrightarrow>
     handle_callback env code st stores = (Inl e, (ss, ts))"
  by (simp add: handle_callback_def)

lemma store_token_Inr: "store_token resp now s = Inr (tr, ts) \<Longrightarrow> ts = save s tr \<and> raw tr = resp \<and> TokenRecord.created_at tr = now"
  by (auto simp: store_token_def Let_def split: pyval.splits)

subsection \<open>A failed consume gives one answer for every cause\<close>

text \<open>
  C2 (as the code has it). \<open>consume\<close> has one failure value for its three causes: it
  returns \<open>None\<close> exactly when the state is unknown, already consumed or expired, and it
  then leaves the store as it was; and for each of them the callback handler answers
  with status 400 and the one message \<open>Invalid or expired OAuth state.\<close>, with both
  stores unchanged.
\<close>

theorem consume_fails_uniformly:
  "((fst (consume s st now) = None) =
      (states s st = None
       \<or> (\<exists>r. states s st = Some r \<and> (consumed_at r \<noteq> None \<or> expires_at r \<le> now))))
   \<and> (fst (consume s st now) = None \<longrightarrow> consume s st now = (None, s))
   \<and> (query_params request ''code'' = Some code \<and> code \<noteq> []
        \<and> query_params request ''state'' = Some st' \<and> st' \<noteq> []
        \<and> fst (consume (fst stores) st' (consume_now env)) = None \<longrightarrow>
          notion_oauth_callback env isoformat request stores =
            (Inr (JSONResponse [(''error'', PStr ''Invalid or expired OAuth state.'')] 400), stores))"
proof -
  have a: "(fst (consume s st now) = None) =
      (states s st = None
       \<or> (\<exists>r. states s st = Some r \<and> (consumed_at r \<noteq> None \<or> expires_at r \<le> now)))"
    by (rule consume_None_iff)
  have b: "fst (consume s st now) = None \<longrightarrow> consume s st now = (None, s)"
    by (simp add: consume_None_unchanged)
  have c: "query_params request ''code'' = Some code \<and> code \<noteq> []
        \<and> query_params request ''state'' = Some st' \<and> st' \<noteq> []
        \<and> fst (consume (fst stores) st' (consume_now env)) = None \<longrightarrow>
          notion_oauth_callback env isoformat request stores =
            (Inr (JSONResponse [(''error'', PStr ''Invalid or expired OAuth state.'')] 400), stores)"
    by (simp add: notion_oauth_callback_def handle_callback_consume_fails)
  from a b c show ?thesis by blast
qed


text \<open>The theorem at an expired state.\<close>

theorem consume_fails_uniformly_witness:
  "fst (consume \<lparr>states = [''S1'' \<mapsto> pending_state]\<rparr> ''S1'' 601000000) = None
   \<and> consume \<lparr>states = [''S1'' \<mapsto> pending_state]\<rparr> ''S1'' 601000000 =
       (None, \<lparr>states = [''S1'' \<mapsto> pending_state]\<rparr>)
   \<and> notion_oauth_callback (working_env\<lparr>consume_now := 601000000\<rparr>) (\<lambda>t. ''2026'')
        (callback_request ''code-1'' ''S1'')
        (\<lparr>states = [''S1'' \<mapsto> pending_state]\<rparr>, InMemoryTokenStore_init) =
       (Inr (JSONResponse [(''error'', PStr ''Invalid or expired OAuth state.'')] 400),
        (\<lparr>states = [''S1'' \<mapsto> pending_state]\<rparr>, InMemoryTokenStore_init))"
proof -
  let ?S = "\<lparr>states = [''S1'' \<mapsto> pending_state]\<rparr>"
  let ?env = "working_env\<lparr>consume_now := 601000000\<rparr>"
  let ?req = "callback_request ''code-1'' ''S1''"
  have h0: "fst (consume ?S ''S1'' 601000000) = None"
    by (simp add: consume_def pending_state_def)
  have h1: "query_params ?req ''code'' = Some ''code-1'' \<and> ''code-1'' \<noteq> []
        \<and> query_params ?req ''state'' = Some ''S1'' \<and> ''S1'' \<noteq> []
        \<and> fst (consume (fst (?S, InMemoryTokenStore_init)) ''S1'' (consume_now ?env)) = None"
    using h0 by (simp add: callback_request_def)
  note t = consume_fails_uniformly[of ?S "''S1''" 601000000 ?req "''code-1''" "''S1''"
      "(?S, InMemoryTokenStore_init)" ?env "\<lambda>t. ''2026''"]
  from t h0 h1 show ?thesis by blast
qed

text \<open>
  C2 as stated fails: an unknown state, a consumed state and an expired state give the
  same result of \<open>consume\<close> and the same response of the callback handler, so neither
  tells the caller which of the three causes it was.
\<close>

theorem consume_failure_causes_coincide:
  "consume InMemoryStateStore_init ''S1'' 100000000 = (None, InMemoryStateStore_init)
   \<and> fst (consume \<lparr>states = [''S1'' \<mapsto> pending_state\<lparr>consumed_at := Some 5\<rparr>]\<rparr> ''S1'' 100000000) = None
   \<and> fst (consume \<lparr>states = [''S1'' \<mapsto> pending_state]\<rparr> ''S1'' 601000000) = None
   \<and> fst (notion_oauth_callback working_env (\<lambda>t. ''2026'') (callback_request ''code-1'' ''S1'')
        (InMemoryStateStore_init, InMemoryTokenStore_init)) =
       Inr (JSONResponse [(''error'', PStr ''Invalid or expired OAuth state.'')] 400)
   \<and> fst (notion_oauth_callback working_env (\<lambda>t. ''2026'') (callback_request ''code-1'' ''S1'')
        (\<lparr>states = [''S1'' \<mapsto> pending_state\<lparr>consumed_at := Some 5\<rparr>]\<rparr>, InMemoryTokenStore_init)) =
       Inr (JSONResponse [(''error'', PStr ''Invalid or expired OAuth state.'')] 400)
   \<and> fst (notion_oauth_callback (working_env\<lparr>consume_now := 601000000\<rparr>) (\<lambda>t. ''2026'')
        (callback_request ''code-1'' ''S1'')
        (\<lparr>states = [''S1'' \<mapsto> pending_state]\<rparr>, InMemoryTokenStore_init)) =
       Inr (JSONResponse [(''error'', PStr ''Invalid or expired OAuth state.'')] 400)"
  by (simp add: consume_def InMemoryStateStore_init_def pending_state_def
      notion_oauth_callback_def handle_callback_def callback_request_def working_env_def)

subsection \<open>What a failed callback leaves behind\<close>

text \<open>
  C3 (as the code has it). A callback whose \<open>consume\<close> fails leaves the state store
  and the token store unchanged. One whose code exchange fails, by an exception of the
  exchange or by a body that is no dictionary, leaves the token store untouched, and
  the state it consumed stays consumed. One whose probe fails leaves the record of the
  new exchange saved.
\<close>

theorem callback_failure_effects:
  "(fst (consume (fst stores) st (consume_now env)) = None \<longrightarrow>
      handle_callback env code st stores =
        (Inl (ValueError ''Invalid or expired OAuth state.''), stores))
   \<and> (consume (fst stores) st (consume_now env) = (Some r, ss)
        \<and> exchange_token env code = Inl e \<longrightarrow>
      handle_callback env code st stores = (Inl e, (ss, snd stores))
        \<and> map_option consumed_at (states ss st) = Some (Some (consume_now env)))
   \<and> (consume (fst stores) st (consume_now env) = (Some r, ss)
        \<and> exchange_token env code = Inr resp
        \<and> store_token resp (store_now env) (snd stores) = Inl e \<longrightarrow>
      handle_callback env code st stores = (Inl e, (ss, snd stores)))
   \<and> (consume (fst stores) st (consume_now env) = (Some r, ss)
        \<and> exchange_token env code = Inr resp
        \<and> store_token resp (store_now env) (snd stores) = Inr (tr, ts)
        \<and> smoke_test_search env (access_token tr) = Inl e \<longrightarrow>
      handle_callback env code st stores = (Inl e, (ss, ts)) \<and> get ts = Some tr)"
proof -
  have a: "fst (consume (fst stores) st (consume_now env)) = None \<longrightarrow>
      handle_callback env code st stores =
        (Inl (ValueError ''Invalid or expired OAuth state.''), stores)"
    by (simp add: handle_callback_consume_fails)
  have b: "consume (fst stores) st (consume_now env) = (Some r, ss)
        \<and> exchange_token env code = Inl e \<longrightarrow>
      handle_callback env code st stores = (Inl e, (ss, snd stores))
        \<and> map_option consumed_at (states ss st) = Some (Some (consume_now env))"
    by (auto simp: handle_callback_exchange_fails consume_def Let_def
        split: option.splits if_splits)
  have c: "consume (fst stores) st (consume_now env) = (Some r, ss)
        \<and> exchange_token env code = Inr resp
        \<and> store_token resp (store_now env) (snd stores) = Inl e \<longrightarrow>
      handle_callback env code st stores = (Inl e, (ss, snd stores))"
    by (simp add: handle_callback_store_fails)
  have d: "consume (fst stores) st (consume_now env) = (Some r, ss)
        \<and> exchange_token env code = Inr resp
        \<and> store_token resp (store_now env) (snd stores) = Inr (tr, ts)
        \<and> smoke_test_search env (access_token tr) = Inl e \<longrightarrow>
      handle_callback env code st stores = (Inl e, (ss, ts)) \<and> get ts = Some tr"
    using store_token_Inr[of resp "store_now env" "snd stores" tr ts]
    by (auto simp: handle_callback_probe_fails get_save)
  from a b c d show ?thesis by blast
qed


lemma consume_pending:
  "consume \<lparr>states = [''S1'' \<mapsto> pending_state]\<rparr> ''S1'' 100000000 =
     (Some (pending_state\<lparr>consumed_at := Some 100000000\<rparr>),
      \<lparr>states = [''S1'' \<mapsto> pending_state\<lparr>consumed_at := Some 100000000\<rparr>]\<rparr>)"
  by (simp add: consume_def pending_state_def Let_def)

lemma store_token_demo:
  "store_token (PDict [(''access_token'', PStr ''secret''), (''workspace_id'', PStr ''w1'')])
     100000001 InMemoryTokenStore_init = Inr (saved_record, save InMemoryTokenStore_init saved_record)"
  by (simp add: store_token_def saved_record_def Let_def dict_get_def dict_get_default_def)

text \<open>
  C3 as stated fails: a callback that fails at the exchange has consumed its state, and
  a callback that fails at the probe has saved the new token record; each failure
  leaves a store changed.
\<close>

theorem callback_failure_leaves_state_behind:
  "fst (handle_callback failing_exchange_env ''code-1'' ''S1''
          (\<lparr>states = [''S1'' \<mapsto> pending_state]\<rparr>, InMemoryTokenStore_init)) =
     Inl (OtherError ''401 Unauthorized'')
   \<and> map_option consumed_at (states \<lparr>states = [''S1'' \<mapsto> pending_state]\<rparr> ''S1'') = Some None
   \<and> map_option consumed_at
        (states (fst (snd (handle_callback failing_exchange_env ''code-1'' ''S1''
          (\<lparr>states = [''S1'' \<mapsto> pending_state]\<rparr>, InMemoryTokenStore_init)))) ''S1'') =
       Some (Some 100000000)
   \<and> fst (handle_callback failing_probe_env ''code-1'' ''S1''
          (\<lparr>states = [''S1'' \<mapsto> pending_state]\<rparr>, InMemoryTokenStore_init)) =
     Inl (OtherError ''503 Service Unavailable'')
   \<and> get InMemoryTokenStore_init = None
   \<and> get (snd (snd (handle_callback failing_probe_env ''code-1'' ''S1''
          (\<lparr>states = [''S1'' \<mapsto> pending_state]\<rparr>, InMemoryTokenStore_init)))) =
       Some saved_record"
proof -
  have a: "handle_callback failing_exchange_env ''code-1'' ''S1''
          (\<lparr>states = [''S1'' \<mapsto> pending_state]\<rparr>, InMemoryTokenStore_init) =
       (Inl (OtherError ''401 Unauthorized''),
        (\<lparr>states = [''S1'' \<mapsto> pending_state\<lparr>consumed_at := Some 100000000\<rparr>]\<rparr>,
         InMemoryTokenStore_init))"
    by (simp add: handle_callback_def failing_exchange_env_def consume_pending)
  have b: "handle_callback failing_probe_env ''code-1'' ''S1''
          (\<lparr>states = [''S1'' \<mapsto> pending_state]\<rparr>, InMemoryTokenStore_init) =
       (Inl (OtherError ''503 Service Unavailable''),
        (\<lparr>states = [''S1'' \<mapsto> pending_state\<lparr>consumed_at := Some 100000000\<rparr>]\<rparr>,
         save InMemoryTokenStore_init saved_record))"
    by (simp add: handle_callback_def failing_probe_env_def consume_pending store_token_demo)
  have c: "consumed_at pending_state = None" by (simp add: pending_state_def)
  have d: "get InMemoryTokenStore_init = None" by (simp add: get_def InMemoryTokenStore_init_def)
  show ?thesis by (simp add: a b c d get_save)
qed

text \<open>The theorem at one failing callback of each kind.\<close>

theorem callback_failure_effects_witness:
  "handle_callback (working_env\<lparr>consume_now := 601000000\<rparr>) ''code-1'' ''S1''
          (\<lparr>states = [''S1'' \<mapsto> pending_state]\<rparr>, InMemoryTokenStore_init) =
       (Inl (ValueError ''Invalid or expired OAuth state.''),
        (\<lparr>states = [''S1'' \<mapsto> pending_state]\<rparr>, InMemoryTokenStore_init))
   \<and> handle_callback failing_exchange_env ''code-1'' ''S1''
          (\<lparr>states = [''S1'' \<mapsto> pending_state]\<rparr>, save InMemoryTokenStore_init saved_record) =
       (Inl (OtherError ''401 Unauthorized''),
        (\<lparr>states = [''S1'' \<mapsto> pending_state\<lparr>consumed_at := Some 100000000\<rparr>]\<rparr>,
         save InMemoryTokenStore_init saved_record))
   \<and> handle_callback (working_env\<lparr>exchange_token := (\<lambda>code. Inr (PList []))\<rparr>) ''code-1'' ''S1''
          (\<lparr>states = [''S1'' \<mapsto> pending_state]\<rparr>, save InMemoryTokenStore_init saved_record) =
       (Inl (AttributeError ''get''),
        (\<lparr>states = [''S1'' \<mapsto> pending_state\<lparr>consumed_at := Some 100000000\<rparr>]\<rparr>,
         save InMemoryTokenStore_init saved_record))
   \<and> handle_callback failing_probe_env ''code-1'' ''S1''
          (\<lparr>states = [''S1'' \<mapsto> pending_state]\<rparr>, InMemoryTokenStore_init) =
       (Inl (OtherError ''503 Service Unavailable''),
        (\<lparr>states = [''S1'' \<mapsto> pending_state\<lparr>consumed_at := Some 100000000\<rparr>]\<rparr>,
         save InMemoryTokenStore_init saved_record))"
proof -
  let ?S = "\<lparr>states = [''S1'' \<mapsto> pending_state]\<rparr>"
  let ?S' = "\<lparr>states = [''S1'' \<mapsto> pending_state\<lparr>consumed_at := Some 100000000\<rparr>]\<rparr>"
  let ?R' = "pending_state\<lparr>consumed_at := Some 100000000\<rparr>"
  let ?T = "save InMemoryTokenStore_init saved_record"
  let ?late = "working_env\<lparr>consume_now := 601000000\<rparr>"
  let ?bad = "working_env\<lparr>exchange_token := (\<lambda>code. Inr (PList []))\<rparr>"
  let ?resp = "PDict [(''access_token'', PStr ''secret''), (''workspace_id'', PStr ''w1'')]"
  have h1: "fst (consume (fst (?S, InMemoryTokenStore_init)) ''S1'' (consume_now ?late)) = None"
    by (simp add: consume_def pending_state_def)
  have a1: "handle_callback ?late ''code-1'' ''S1'' (?S, InMemoryTokenStore_init) =
       (Inl (ValueError ''Invalid or expired OAuth state.''), (?S, InMemoryTokenStore_init))"
    using callback_failure_effects[of "(?S, InMemoryTokenStore_init)" "''S1''" ?late "''code-1''"] h1
    by blast
  have h2: "consume (fst (?S, ?T)) ''S1'' (consume_now failing_exchange_env) = (Some ?R', ?S')
        \<and> exchange_token failing_exchange_env ''code-1'' = Inl (OtherError ''401 Unauthorized'')"
    by (simp add: failing_exchange_env_def consume_pending)
  have a2: "handle_callback failing_exchange_env ''code-1'' ''S1'' (?S, ?T) =
       (Inl (OtherError ''401 Unauthorized''), (?S', ?T))"
    using callback_failure_effects[of "(?S, ?T)" "''S1''" failing_exchange_env "''code-1''" ?R' ?S'
        "OtherError ''401 Unauthorized''"] h2
    by simp
  have h3: "consume (fst (?S, ?T)) ''S1'' (consume_now ?bad) = (Some ?R', ?S')
        \<and> exchange_token ?bad ''code-1'' = Inr (PList [])
        \<and> store_token (PList []) (store_now ?bad) (snd (?S, ?T)) = Inl (AttributeError ''get'')"
    by (simp add: working_env_def consume_pending store_token_def)
  have a3: "handle_callback ?bad ''code-1'' ''S1'' (?S, ?T) = (Inl (AttributeError ''get''), (?S', ?T))"
    using callback_failure_effects[of "(?S, ?T)" "''S1''" ?bad "''code-1''" ?R' ?S'
        "AttributeError ''get''" "PList []"] h3
    by simp
  have h4: "consume (fst (?S, InMemoryTokenStore_init)) ''S1'' (consume_now failing_probe_env) = (Some ?R', ?S')
        \<and> exchange_token failing_probe_env ''code-1'' = Inr ?resp
        \<and> store_token ?resp (store_now failing_probe_env) (snd (?S, InMemoryTokenStore_init)) =
            Inr (saved_record, ?T)
        \<and> smoke_test_search failing_probe_env (access_token saved_record) =
            Inl (OtherError ''503 Service Unavailable'')"
    by (simp add: failing_probe_env_def consume_pending store_token_demo)
  have a4: "handle_callback failing_probe_env ''code-1'' ''S1'' (?S, InMemoryTokenStore_init) =
       (Inl (OtherError ''503 Service Unavailable''), (?S', ?T))"
    using callback_failure_effects[of "(?S, InMemoryTokenStore_init)" "''S1''" failing_probe_env
        "''code-1''" ?R' ?S' "OtherError ''503 Service Unavailable''" ?resp saved_record ?T] h4
    by simp
  from a1 a2 a3 a4 show ?thesis by simp
qed

lemma serialize_token_view:
  "serialize_token isoformat token =
     Inr [(''workspace_id'', workspace_id token),
          (''workspace_name'', workspace_name token),
          (''created_at'', PStr (isoformat (TokenRecord.created_at token))),
          (''scope'', scope token)]"
  by (simp add: serialize_token_def asdict_def dict_get_def dict_get_default_def dict_pop_def Let_def)

lemma handle_callback_Inr:
  "handle_callback env code st stores = (Inr (token, smoke), stores') \<Longrightarrow> get (snd stores') = Some token"
  by (auto simp: handle_callback_def get_save split: prod.splits option.splits sum.splits
      dest!: store_token_Inr)

lemma callback_200:
  assumes "notion_oauth_callback env isoformat request stores = (Inr resp, stores')"
    and "status_code resp = 200"
  shows "\<exists>code st token smoke.
           handle_callback env code st stores = (Inr (token, smoke), stores')
           \<and> resp = JSONResponse [(''token'', PDict [(''workspace_id'', workspace_id token),
                                      (''workspace_name'', workspace_name token),
                                      (''created_at'', PStr (isoformat (TokenRecord.created_at token))),
                                      (''scope'', scope token)]),
                                   (''smoke_test'', smoke)] 200"
  using assms
  by (auto simp: notion_oauth_callback_def JSONResponse_def serialize_token_view
      split: option.splits if_splits prod.splits sum.splits exn.splits)

subsection \<open>The token view of a successful callback\<close>

text \<open>
  C8. \<open>_serialize_token\<close> gives the fields of the record but \<open>access_token\<close> and \<open>raw\<close>,
  with \<open>created_at\<close> as the string \<open>isoformat\<close> renders; the view has no key
  \<open>access_token\<close> and no key \<open>raw\<close>. Whenever the callback handler answers with status
  200, the token of its body is that view of the record the token store now holds.
\<close>

theorem callback_token_view:
  "(\<exists>view. serialize_token isoformat token = Inr view
      \<and> view = [(''workspace_id'', workspace_id token),
                (''workspace_name'', workspace_name token),
                (''created_at'', PStr (isoformat (TokenRecord.created_at token))),
                (''scope'', scope token)]
      \<and> map_of view ''access_token'' = None
      \<and> map_of view ''raw'' = None)
   \<and> (notion_oauth_callback env isoformat request stores = (Inr resp, stores')
        \<and> status_code resp = 200 \<longrightarrow>
       (\<exists>stored smoke. get (snd stores') = Some stored
          \<and> content resp =
              PDict [(''token'', PDict [(''workspace_id'', workspace_id stored),
                                       (''workspace_name'', workspace_name stored),
                                       (''created_at'',
                                          PStr (isoformat (TokenRecord.created_at stored))),
                                       (''scope'', scope stored)]),
                     (''smoke_test'', smoke)]))"
proof -
  have a: "\<exists>view. serialize_token isoformat token = Inr view
      \<and> view = [(''workspace_id'', workspace_id token),
                (''workspace_name'', workspace_name token),
                (''created_at'', PStr (isoformat (TokenRecord.created_at token))),
                (''scope'', scope token)]
      \<and> map_of view ''access_token'' = None
      \<and> map_of view ''raw'' = None"
    by (simp add: serialize_token_view)
  have b: "notion_oauth_callback env isoformat request stores = (Inr resp, stores')
        \<and> status_code resp = 200 \<longrightarrow>
       (\<exists>stored smoke. get (snd stores') = Some stored
          \<and> content resp =
              PDict [(''token'', PDict [(''workspace_id'', workspace_id stored),
                                       (''workspace_name'', workspace_name stored),
                                       (''created_at'',
                                          PStr (isoformat (TokenRecord.created_at stored))),
                                       (''scope'', scope stored)]),
                     (''smoke_test'', smoke)])"
  proof (intro impI, elim conjE)
    assume r: "notion_oauth_callback env isoformat request stores = (Inr resp, stores')"
      and s: "status_code resp = 200"
    from callback_200[OF r s] obtain code st tok smoke where
      h: "handle_callback env code st stores = (Inr (tok, smoke), stores')" and
      e: "resp = JSONResponse [(''token'', PDict [(''workspace_id'', workspace_id tok),
                                      (''workspace_name'', workspace_name tok),
                                      (''created_at'', PStr (isoformat (TokenRecord.created_at tok))),
                                      (''scope'', scope tok)]),
                                   (''smoke_test'', smoke)] 200"
      by blast
    have "get (snd stores') = Some tok" using handle_callback_Inr[OF h] .
    with e show "\<exists>stored smoke. get (snd stores') = Some stored
          \<and> content resp =
              PDict [(''token'', PDict [(''workspace_id'', workspace_id stored),
                                       (''workspace_name'', workspace_name stored),
                                       (''created_at'',
                                          PStr (isoformat (TokenRecord.created_at stored))),
                                       (''scope'', scope stored)]),
                     (''smoke_test'', smoke)]"
      by (auto simp: JSONResponse_def)
  qed
  from a b show ?thesis by blast
qed

lemma callback_success_demo:
  "notion_oauth_callback working_env (\<lambda>t. ''1970-01-01T00:01:40.000001+00:00'')
     (callback_request ''code-1'' ''S1'')
     (\<lparr>states = [''S1'' \<mapsto> pending_state]\<rparr>, InMemoryTokenStore_init) =
   (Inr \<lparr>content = PDict [(''token'', PDict [(''workspace_id'', PStr ''w1''),
                                              (''workspace_name'', PNone),
                                              (''created_at'', PStr ''1970-01-01T00:01:40.000001+00:00''),
                                              (''scope'', PNone)]),
                           (''smoke_test'', PDict [(''results'', PList [])])],
          status_code = 200\<rparr>,
    (\<lparr>states = [''S1'' \<mapsto> pending_state\<lparr>consumed_at := Some 100000000\<rparr>]\<rparr>,
     save InMemoryTokenStore_init saved_record))"
  by (simp add: notion_oauth_callback_def handle_callback_def callback_request_def working_env_def
      consume_pending store_token_demo serialize_token_view JSONResponse_def saved_record_def)

text \<open>The theorem at a callback that succeeds.\<close>

theorem callback_token_view_witness:
  "notion_oauth_callback working_env (\<lambda>t. ''1970-01-01T00:01:40.000001+00:00'')
     (callback_request ''code-1'' ''S1'')
     (\<lparr>states = [''S1'' \<mapsto> pending_state]\<rparr>, InMemoryTokenStore_init) =
   (Inr \<lparr>content = PDict [(''token'', PDict [(''workspace_id'', PStr ''w1''),
                                              (''workspace_name'', PNone),
                                              (''created_at'', PStr ''1970-01-01T00:01:40.000001+00:00''),
                                              (''scope'', PNone)]),
                           (''smoke_test'', PDict [(''results'', PList [])])],
          status_code = 200\<rparr>,
    (\<lparr>states = [''S1'' \<mapsto> pending_state\<lparr>consumed_at := Some 100000000\<rparr>]\<rparr>,
     save InMemoryTokenStore_init saved_record))
   \<and> (\<exists>stored smoke.
         get (save InMemoryTokenStore_init saved_record) = Some stored
         \<and> PDict [(''token'', PDict [(''workspace_id'', PStr ''w1''),
                                     (''workspace_name'', PNone),
                                     (''created_at'', PStr ''1970-01-01T00:01:40.000001+00:00''),
                                     (''scope'', PNone)]),
                  (''smoke_test'', PDict [(''results'', PList [])])] =
             PDict [(''token'', PDict [(''workspace_id'', workspace_id stored),
                                      (''workspace_name'', workspace_name stored),
                                      (''created_at'', PStr ''1970-01-01T00:01:40.000001+00:00''),
                                      (''scope'', scope stored)]),
                    (''smoke_test'', smoke)])"
proof -
  let ?iso = "\<lambda>t::datetime. ''1970-01-01T00:01:40.000001+00:00''"
  let ?resp = "\<lparr>content = PDict [(''token'', PDict [(''workspace_id'', PStr ''w1''),
                                              (''workspace_name'', PNone),
                                              (''created_at'', PStr ''1970-01-01T00:01:40.000001+00:00''),
                                              (''scope'', PNone)]),
                           (''smoke_test'', PDict [(''results'', PList [])])],
          status_code = 200\<rparr>"
  let ?stores' = "(\<lparr>states = [''S1'' \<mapsto> pending_state\<lparr>consumed_at := Some 100000000\<rparr>]\<rparr>,
     save InMemoryTokenStore_init saved_record)"
  note d = callback_success_demo
  have h: "status_code ?resp = 200" by simp
  from callback_token_view[of ?iso _ working_env "callback_request ''code-1'' ''S1''"
      "(\<lparr>states = [''S1'' \<mapsto> pending_state]\<rparr>, InMemoryTokenStore_init)" ?resp ?stores'] d h
  show ?thesis by simp
qed

subsection \<open>Missing and empty callback parameters\<close>

text \<open>
  C10. A callback request whose \<open>code\<close> or \<open>state\<close> parameter is absent or empty is
  answered with status 400 and a body with the key \<open>error\<close>, the same in each case,
  whatever the environment and the stores are; both stores are returned as they were,
  so no state is consumed.
\<close>

theorem callback_rejects_missing_params:
  assumes "query_params request ''code'' = None \<or> query_params request ''code'' = Some []
           \<or> query_params request ''state'' = None \<or> query_params request ''state'' = Some []"
  shows "notion_oauth_callback env isoformat request stores =
           (Inr \<lparr>content = PDict [(''error'', PStr ''Missing code or state'')], status_code = 400\<rparr>,
            stores)"
  using assms
  by (auto simp: notion_oauth_callback_def JSONResponse_def split: option.splits)

text \<open>
  The theorem at an empty code, an absent code and an empty state, each with a pending
  state in the store.
\<close>

theorem callback_rejects_missing_params_witness:
  "notion_oauth_callback working_env (\<lambda>t. ''2026'') (callback_request '''' ''S1'')
       (\<lparr>states = [''S1'' \<mapsto> pending_state]\<rparr>, InMemoryTokenStore_init) =
     (Inr \<lparr>content = PDict [(''error'', PStr ''Missing code or state'')], status_code = 400\<rparr>,
      (\<lparr>states = [''S1'' \<mapsto> pending_state]\<rparr>, InMemoryTokenStore_init))
   \<and> notion_oauth_callback working_env (\<lambda>t. ''2026'')
       ((callback_request ''code-1'' ''S1'')\<lparr>query_params := [''state'' \<mapsto> ''S1'']\<rparr>)
       (\<lparr>states = [''S1'' \<mapsto> pending_state]\<rparr>, InMemoryTokenStore_init) =
     (Inr \<lparr>content = PDict [(''error'', PStr ''Missing code or state'')], status_code = 400\<rparr>,
      (\<lparr>states = [''S1'' \<mapsto> pending_state]\<rparr>, InMemoryTokenStore_init))
   \<and> notion_oauth_callback working_env (\<lambda>t. ''2026'') (callback_request ''code-1'' '''')
       (\<lparr>states = [''S1'' \<mapsto> pending_state]\<rparr>, InMemoryTokenStore_init) =
     (Inr \<lparr>content = PDict [(''error'', PStr ''Missing code or state'')], status_code = 400\<rparr>,
      (\<lparr>states = [''S1'' \<mapsto> pending_state]\<rparr>, InMemoryTokenStore_init))"
proof -
  have h1: "query_params (callback_request '''' ''S1'') ''code'' = Some []"
    by (simp add: callback_request_def)
  have h2: "query_params ((callback_request ''code-1'' ''S1'')\<lparr>query_params := [''state'' \<mapsto> ''S1'']\<rparr>)
              ''code'' = None"
    by simp
  have h3: "query_params (callback_request ''code-1'' '''') ''state'' = Some []"
    by (simp add: callback_request_def)
  from callback_rejects_missing_params[of "callback_request '''' ''S1''"] h1
       callback_rejects_missing_params[of
         "(callback_request ''code-1'' ''S1'')\<lparr>query_params := [''state'' \<mapsto> ''S1'']\<rparr>"] h2
       callback_rejects_missing_params[of "callback_request ''code-1'' ''''"] h3
  show ?thesis by blast
qed

subsection \<open>The key-set cache\<close>









subsection \<open>Token verification\<close>

lemma find_key_Inr:
  "find_key fj keys kid = Inr key \<Longrightarrow>
     list_ex (\<lambda>key. case key of PDict kd \<Rightarrow> dict_get kd ''kid'' = kid | _ \<Rightarrow> False) keys"
  by (induction keys) (auto split: pyval.splits if_splits)

lemma get_key_Inr:
  "get_key fj net now kid w = (Inr key, w') \<Longrightarrow>
     \<exists>key_set. get_jwks net now w = (Inr key_set, w') \<and> kid_in_key_set key_set kid"
  by (auto simp: get_key_def kid_in_key_set_def split: prod.splits sum.splits pyval.splits if_splits
      dest: find_key_Inr)

lemma verify_jwt_Inr:
  assumes "verify_jwt env now token w = (Inr payload, w')"
  shows "\<exists>hdrs key key_set.
           get_unverified_header env token = Inr hdrs
           \<and> truthy (dict_get hdrs ''kid'')
           \<and> get_jwks (jwks_net env) now w = (Inr key_set, w')
           \<and> kid_in_key_set key_set (dict_get hdrs ''kid'')
           \<and> decode env token key [''RS256''] (audience env) (issuer env) = Inr payload"
proof -
  from assms obtain hdrs where h: "get_unverified_header env token = Inr hdrs"
    by (auto simp: verify_jwt_def split: sum.splits)
  from assms h have k: "truthy (dict_get hdrs ''kid'')"
    by (auto simp: verify_jwt_def Let_def split: if_splits)
  from assms h k obtain key where
    g: "get_key (from_jwk env) (jwks_net env) now (dict_get hdrs ''kid'') w = (Inr key, w')" and
    d: "decode env token key [''RS256''] (audience env) (issuer env) = Inr payload"
    by (auto simp: verify_jwt_def Let_def split: prod.splits sum.splits)
  from get_key_Inr[OF g] h k d show ?thesis by blast
qed

text \<open>
  C5. With a JWT library that checks what \<open>jwt_library_checks\<close> says, \<open>verify_jwt\<close>
  rejects a token whose header names an algorithm other than \<open>RS256\<close> (so also
  \<open>none\<close>), a token whose header has no \<open>kid\<close>, and a token whose \<open>kid\<close> the key set of
  the lookup does not hold; and a claim set it returns has the configured issuer as
  its \<open>iss\<close> and the configured audience as, or in, its \<open>aud\<close>, so a token with another
  issuer or audience is rejected. The two checks of the \<open>kid\<close> are the gateway's own.
\<close>

theorem verify_jwt_rejects:
  assumes "jwt_library_checks env"
  shows "(get_unverified_header env token = Inr hdrs \<and> dict_get hdrs ''alg'' \<noteq> PStr ''RS256'' \<longrightarrow>
            isl (fst (verify_jwt env now token w)))
       \<and> (get_unverified_header env token = Inr hdrs \<and> \<not> truthy (dict_get hdrs ''kid'') \<longrightarrow>
            verify_jwt env now token w = (Inl (ValueError ''JWT missing kid header.''), w))
       \<and> (get_unverified_header env token = Inr hdrs
            \<and> get_jwks (jwks_net env) now w = (Inr key_set, w')
            \<and> \<not> kid_in_key_set key_set (dict_get hdrs ''kid'') \<longrightarrow>
            isl (fst (verify_jwt env now token w)))
       \<and> (fst (verify_jwt env now token w) = Inr payload \<longrightarrow>
            dict_get payload ''iss'' = PStr (issuer env)
            \<and> audience_matches payload (audience env))"
proof -
  have acc: "\<exists>hs key. get_unverified_header env token = Inr hs
               \<and> truthy (dict_get hs ''kid'')
               \<and> (\<exists>ks. get_jwks (jwks_net env) now w = (Inr ks, snd (verify_jwt env now token w))
                        \<and> kid_in_key_set ks (dict_get hs ''kid''))
               \<and> decode env token key [''RS256''] (audience env) (issuer env) = Inr p"
    if "fst (verify_jwt env now token w) = Inr p" for p
  proof -
    from that have "verify_jwt env now token w = (Inr p, snd (verify_jwt env now token w))"
      by (simp add: prod_eq_iff)
    from verify_jwt_Inr[OF this] show ?thesis by blast
  qed
  have lib: "(\<exists>hs alg. get_unverified_header env token = Inr hs
                       \<and> dict_get hs ''alg'' = PStr alg \<and> alg \<in> set [''RS256''])
          \<and> dict_get p ''iss'' = PStr (issuer env)
          \<and> audience_matches p (audience env)"
    if "decode env token key [''RS256''] (audience env) (issuer env) = Inr p" for key p
    using assms that unfolding jwt_library_checks_def by blast
  have a: "get_unverified_header env token = Inr hdrs \<and> dict_get hdrs ''alg'' \<noteq> PStr ''RS256'' \<longrightarrow>
            isl (fst (verify_jwt env now token w))"
  proof (intro impI, elim conjE)
    assume h: "get_unverified_header env token = Inr hdrs"
      and n: "dict_get hdrs ''alg'' \<noteq> PStr ''RS256''"
    show "isl (fst (verify_jwt env now token w))"
    proof (cases "fst (verify_jwt env now token w)")
      case (Inl e)
      then show ?thesis by simp
    next
      case (Inr p)
      from acc[OF Inr] obtain key where
        "decode env token key [''RS256''] (audience env) (issuer env) = Inr p"
        by blast
      from lib[OF this] h have "dict_get hdrs ''alg'' = PStr ''RS256''" by auto
      with n show ?thesis by simp
    qed
  qed
  have b: "get_unverified_header env token = Inr hdrs \<and> \<not> truthy (dict_get hdrs ''kid'') \<longrightarrow>
            verify_jwt env now token w = (Inl (ValueError ''JWT missing kid header.''), w)"
    by (simp add: verify_jwt_def)
  have c: "get_unverified_header env token = Inr hdrs
            \<and> get_jwks (jwks_net env) now w = (Inr key_set, w')
            \<and> \<not> kid_in_key_set key_set (dict_get hdrs ''kid'') \<longrightarrow>
            isl (fst (verify_jwt env now token w))"
  proof (intro impI, elim conjE)
    assume h: "get_unverified_header env token = Inr hdrs"
      and g: "get_jwks (jwks_net env) now w = (Inr key_set, w')"
      and n: "\<not> kid_in_key_set key_set (dict_get hdrs ''kid'')"
    show "isl (fst (verify_jwt env now token w))"
    proof (cases "fst (verify_jwt env now token w)")
      case (Inl e)
      then show ?thesis by simp
    next
      case (Inr p)
      from acc[OF Inr] h g have "kid_in_key_set key_set (dict_get hdrs ''kid'')" by auto
      with n show ?thesis by simp
    qed
  qed
  have d: "fst (verify_jwt env now token w) = Inr payload \<longrightarrow>
            dict_get payload ''iss'' = PStr (issuer env)
            \<and> audience_matches payload (audience env)"
  proof
    assume r: "fst (verify_jwt env now token w) = Inr payload"
    from acc[OF r] obtain key where
      "decode env token key [''RS256''] (audience env) (issuer env) = Inr payload"
      by blast
    from lib[OF this] show "dict_get payload ''iss'' = PStr (issuer env)
            \<and> audience_matches payload (audience env)"
      by blast
  qed
  from a b c d show ?thesis by blast
qed

lemma demo_library_checks: "jwt_library_checks demo_auth_env"
  unfolding jwt_library_checks_def
  by (auto simp: demo_auth_env_def demo_decode_def demo_header_def audience_matches_def
      dict_get_def dict_get_default_def split: if_splits)

lemma demo_get_jwks: "get_jwks (jwks_net demo_auth_env) 5000 demo_world =
    (Inr demo_key_set,
     \<lparr>client = (client demo_world)\<lparr>jwks := demo_key_set, fetched_at := Some 5000\<rparr>, requests = 1\<rparr>)"
  by (simp add: get_jwks_def demo_world_def demo_auth_env_def)

lemma demo_verify_good:
  "verify_jwt demo_auth_env 5000 ''good'' demo_world =
     (Inr [(''iss'', PStr ''https://p.supabase.co/auth/v1''), (''sub'', PStr ''user-1''),
           (''aud'', PStr ''authenticated'')],
      \<lparr>client = (client demo_world)\<lparr>jwks := demo_key_set, fetched_at := Some 5000\<rparr>, requests = 1\<rparr>)"
  by (simp add: verify_jwt_def get_key_def get_jwks_def demo_world_def Let_def
      demo_auth_env_def demo_header_def demo_decode_def demo_key_set_def
      dict_get_def dict_get_default_def py_iter_def)

text \<open>The theorem at the stand-in library and its tokens.\<close>

theorem verify_jwt_rejects_witness:
  "jwt_library_checks demo_auth_env
   \<and> isl (fst (verify_jwt demo_auth_env 5000 ''unsigned'' demo_world))
   \<and> verify_jwt demo_auth_env 5000 ''nokid'' demo_world =
       (Inl (ValueError ''JWT missing kid header.''), demo_world)
   \<and> isl (fst (verify_jwt demo_auth_env 5000 ''otherkey'' demo_world))
   \<and> fst (verify_jwt demo_auth_env 5000 ''good'' demo_world) =
       Inr [(''iss'', PStr ''https://p.supabase.co/auth/v1''), (''sub'', PStr ''user-1''),
            (''aud'', PStr ''authenticated'')]
   \<and> dict_get [(''iss'', PStr ''https://p.supabase.co/auth/v1''), (''sub'', PStr ''user-1''),
            (''aud'', PStr ''authenticated'')] ''iss'' = PStr (issuer demo_auth_env)
   \<and> audience_matches [(''iss'', PStr ''https://p.supabase.co/auth/v1''), (''sub'', PStr ''user-1''),
            (''aud'', PStr ''authenticated'')] (audience demo_auth_env)"
proof -
  let ?p = "[(''iss'', PStr ''https://p.supabase.co/auth/v1''), (''sub'', PStr ''user-1''),
            (''aud'', PStr ''authenticated'')]"
  note lib = demo_library_checks
  have h1: "get_unverified_header demo_auth_env ''unsigned'' =
              Inr [(''alg'', PStr ''none''), (''kid'', PStr ''k1'')]
            \<and> dict_get [(''alg'', PStr ''none''), (''kid'', PStr ''k1'')] ''alg'' \<noteq> PStr ''RS256''"
    by (simp add: demo_auth_env_def demo_header_def dict_get_def dict_get_default_def)
  have h2: "get_unverified_header demo_auth_env ''nokid'' = Inr [(''alg'', PStr ''RS256'')]
            \<and> \<not> truthy (dict_get [(''alg'', PStr ''RS256'')] ''kid'')"
    by (simp add: demo_auth_env_def demo_header_def dict_get_def dict_get_default_def)
  have h3: "get_unverified_header demo_auth_env ''otherkey'' =
              Inr [(''alg'', PStr ''RS256''), (''kid'', PStr ''k9'')]
            \<and> get_jwks (jwks_net demo_auth_env) 5000 demo_world =
                (Inr demo_key_set,
                 \<lparr>client = (client demo_world)\<lparr>jwks := demo_key_set, fetched_at := Some 5000\<rparr>,
                  requests = 1\<rparr>)
            \<and> \<not> kid_in_key_set demo_key_set
                  (dict_get [(''alg'', PStr ''RS256''), (''kid'', PStr ''k9'')] ''kid'')"
    by (simp add: demo_get_jwks)
       (simp add: demo_auth_env_def demo_header_def dict_get_def dict_get_default_def
          kid_in_key_set_def demo_key_set_def py_iter_def)
  have h4: "fst (verify_jwt demo_auth_env 5000 ''good'' demo_world) = Inr ?p"
    by (simp add: demo_verify_good)
  have a1: "isl (fst (verify_jwt demo_auth_env 5000 ''unsigned'' demo_world))"
    using verify_jwt_rejects[OF lib, where token = "''unsigned''" and now = 5000 and w = demo_world
        and hdrs = "[(''alg'', PStr ''none''), (''kid'', PStr ''k1'')]"] h1
    by blast
  have a2: "verify_jwt demo_auth_env 5000 ''nokid'' demo_world =
       (Inl (ValueError ''JWT missing kid header.''), demo_world)"
    using verify_jwt_rejects[OF lib, where token = "''nokid''" and now = 5000 and w = demo_world
        and hdrs = "[(''alg'', PStr ''RS256'')]"] h2
    by blast
  have a3: "isl (fst (verify_jwt demo_auth_env 5000 ''otherkey'' demo_world))"
    using verify_jwt_rejects[OF lib, where token = "''otherkey''" and now = 5000 and w = demo_world
        and hdrs = "[(''alg'', PStr ''RS256''), (''kid'', PStr ''k9'')]" and key_set = demo_key_set] h3
    by blast
  have a4: "dict_get ?p ''iss'' = PStr (issuer demo_auth_env)
            \<and> audience_matches ?p (audience demo_auth_env)"
    using verify_jwt_rejects[OF lib, where token = "''good''" and now = 5000 and w = demo_world
        and payload = ?p] h4
    by blast
  from lib a1 a2 a3 h4 a4 show ?thesis by blast
qed

subsection \<open>Request admission\<close>

lemma startswith_iff: "startswith s p = (\<exists>rest. s = p @ rest)"
  by (induction s p rule: startswith.induct) auto

lemma is_public_path_iff:
  "is_public_path p public_paths = (\<exists>public_path \<in> set public_paths. \<exists>rest. p = public_path @ rest)"
  by (simp add: is_public_path_def list_ex_iff startswith_iff)

lemma drop_Bearer: "drop 7 (''Bearer '' @ token) = token"
  by simp

text \<open>
  C6. A path is public when it starts with one of the configured prefixes, and a
  request to a public path is handed on as it is, whatever the library, the network
  and the header are, with the key-set client and the principal store unchanged. Any
  other request with no \<open>authorization\<close> header, or one that does not begin with
  \<open>Bearer \<close>, is answered 401 with an \<open>error\<close> body; and so is one whose token verifies
  but has an empty (or no) \<open>iss\<close> or \<open>sub\<close> claim, with no principal created.
\<close>

theorem dispatch_admission:
  "(is_public_path p public_paths =
      (\<exists>public_path \<in> set public_paths. \<exists>rest. p = public_path @ rest))
   \<and> (is_public_path (path request) public_paths \<longrightarrow>
        dispatch env public_paths now utcnow request g = (CallNext request, g))
   \<and> (\<not> is_public_path (path request) public_paths
        \<and> (headers request ''authorization'' = None
            \<or> (\<exists>h. headers request ''authorization'' = Some h
                    \<and> \<not> (\<exists>rest. h = ''Bearer '' @ rest))) \<longrightarrow>
        dispatch env public_paths now utcnow request g =
          (Return \<lparr>content = PDict [(''error'', PStr ''Missing Bearer token.'')],
                   status_code = 401\<rparr>, g))
   \<and> (\<not> is_public_path (path request) public_paths
        \<and> headers request ''authorization'' = Some (''Bearer '' @ token)
        \<and> verify_jwt env now token (fst g) = (Inr payload, w')
        \<and> (\<not> truthy (dict_get_default payload ''iss'' (PStr ''''))
            \<or> \<not> truthy (dict_get_default payload ''sub'' (PStr ''''))) \<longrightarrow>
        dispatch env public_paths now utcnow request g =
          (Return \<lparr>content = PDict [(''error'', PStr ''Token missing iss/sub.'')],
                   status_code = 401\<rparr>, (w', snd g)))"
proof -
  have a: "is_public_path p public_paths =
      (\<exists>public_path \<in> set public_paths. \<exists>rest. p = public_path @ rest)"
    by (rule is_public_path_iff)
  have b: "is_public_path (path request) public_paths \<longrightarrow>
        dispatch env public_paths now utcnow request g = (CallNext request, g)"
    by (simp add: dispatch_def)
  have c: "\<not> is_public_path (path request) public_paths
        \<and> (headers request ''authorization'' = None
            \<or> (\<exists>h. headers request ''authorization'' = Some h
                    \<and> \<not> (\<exists>rest. h = ''Bearer '' @ rest))) \<longrightarrow>
        dispatch env public_paths now utcnow request g =
          (Return \<lparr>content = PDict [(''error'', PStr ''Missing Bearer token.'')],
                   status_code = 401\<rparr>, g)"
  proof (intro impI, elim conjE)
    assume np: "\<not> is_public_path (path request) public_paths"
      and h: "headers request ''authorization'' = None
            \<or> (\<exists>h. headers request ''authorization'' = Some h
                    \<and> \<not> (\<exists>rest. h = ''Bearer '' @ rest))"
    have "\<not> startswith (case headers request ''authorization'' of None \<Rightarrow> [] | Some h \<Rightarrow> h)
              ''Bearer ''"
      using h by (auto simp: startswith_iff)
    then show "dispatch env public_paths now utcnow request g =
          (Return \<lparr>content = PDict [(''error'', PStr ''Missing Bearer token.'')],
                   status_code = 401\<rparr>, g)"
      using np by (simp add: dispatch_def Let_def JSONResponse_def)
  qed
  have d: "\<not> is_public_path (path request) public_paths
        \<and> headers request ''authorization'' = Some (''Bearer '' @ token)
        \<and> verify_jwt env now token (fst g) = (Inr payload, w')
        \<and> (\<not> truthy (dict_get_default payload ''iss'' (PStr ''''))
            \<or> \<not> truthy (dict_get_default payload ''sub'' (PStr ''''))) \<longrightarrow>
        dispatch env public_paths now utcnow request g =
          (Return \<lparr>content = PDict [(''error'', PStr ''Token missing iss/sub.'')],
                   status_code = 401\<rparr>, (w', snd g))"
  proof (intro impI, elim conjE)
    assume np: "\<not> is_public_path (path request) public_paths"
      and h: "headers request ''authorization'' = Some (''Bearer '' @ token)"
      and v: "verify_jwt env now token (fst g) = (Inr payload, w')"
      and e: "\<not> truthy (dict_get_default payload ''iss'' (PStr ''''))
            \<or> \<not> truthy (dict_get_default payload ''sub'' (PStr ''''))"
    have s: "startswith (''Bearer '' @ token) ''Bearer ''"
      by (simp only: startswith_iff) blast
    have t: "drop 7 (''Bearer '' @ token) = token"
      by (rule drop_Bearer)
    show "dispatch env public_paths now utcnow request g =
          (Return \<lparr>content = PDict [(''error'', PStr ''Token missing iss/sub.'')],
                   status_code = 401\<rparr>, (w', snd g))"
      unfolding dispatch_def Let_def using np h e
      by (simp only: option.case if_False if_True s t v prod.case sum.case not_True_eq_False
          not_False_eq_True JSONResponse_def simp_thms)
  qed
  from a b c d show ?thesis by blast
qed

lemma demo_verify_nosub:
  "verify_jwt demo_auth_env 5000 ''nosub'' demo_world =
     (Inr [(''iss'', PStr ''https://p.supabase.co/auth/v1''), (''sub'', PStr ''''),
           (''aud'', PStr ''authenticated'')],
      \<lparr>client = (client demo_world)\<lparr>jwks := demo_key_set, fetched_at := Some 5000\<rparr>, requests = 1\<rparr>)"
  by (simp add: verify_jwt_def get_key_def get_jwks_def demo_world_def Let_def
      demo_auth_env_def demo_header_def demo_decode_def demo_key_set_def
      dict_get_def dict_get_default_def py_iter_def)

text \<open>
  The theorem at a public path, at a protected path with no header and with a header
  in the wrong case, and at a token with an empty \<open>sub\<close>.
\<close>

theorem dispatch_admission_witness:
  "dispatch demo_auth_env [''/health''] 5000 7 (demo_request ''/healthz'' Map.empty)
       (demo_world, InMemoryPrincipalStore_init) =
     (CallNext (demo_request ''/healthz'' Map.empty), (demo_world, InMemoryPrincipalStore_init))
   \<and> dispatch demo_auth_env [''/health''] 5000 7 (demo_request ''/mcp'' Map.empty)
       (demo_world, InMemoryPrincipalStore_init) =
     (Return \<lparr>content = PDict [(''error'', PStr ''Missing Bearer token.'')], status_code = 401\<rparr>,
      (demo_world, InMemoryPrincipalStore_init))
   \<and> dispatch demo_auth_env [''/health''] 5000 7
       (demo_request ''/mcp'' [''authorization'' \<mapsto> ''bearer good''])
       (demo_world, InMemoryPrincipalStore_init) =
     (Return \<lparr>content = PDict [(''error'', PStr ''Missing Bearer token.'')], status_code = 401\<rparr>,
      (demo_world, InMemoryPrincipalStore_init))
   \<and> dispatch demo_auth_env [''/health''] 5000 7
       (demo_request ''/mcp'' [''authorization'' \<mapsto> ''Bearer nosub''])
       (demo_world, InMemoryPrincipalStore_init) =
     (Return \<lparr>content = PDict [(''error'', PStr ''Token missing iss/sub.'')], status_code = 401\<rparr>,
      (\<lparr>client = (client demo_world)\<lparr>jwks := demo_key_set, fetched_at := Some 5000\<rparr>,
        requests = 1\<rparr>,
       InMemoryPrincipalStore_init))"
proof -
  let ?g = "(demo_world, InMemoryPrincipalStore_init)"
  let ?w' = "\<lparr>client = (client demo_world)\<lparr>jwks := demo_key_set, fetched_at := Some 5000\<rparr>,
        requests = 1\<rparr>"
  let ?p = "[(''iss'', PStr ''https://p.supabase.co/auth/v1''), (''sub'', PStr ''''),
           (''aud'', PStr ''authenticated'')]"
  have h1: "is_public_path (path (demo_request ''/healthz'' Map.empty)) [''/health'']"
    by (simp add: is_public_path_def demo_request_def)
  have h2: "\<not> is_public_path (path (demo_request ''/mcp'' Map.empty)) [''/health'']
            \<and> (headers (demo_request ''/mcp'' Map.empty) ''authorization'' = None
                \<or> (\<exists>h. headers (demo_request ''/mcp'' Map.empty) ''authorization'' = Some h
                        \<and> \<not> (\<exists>rest. h = ''Bearer '' @ rest)))"
    by (simp add: is_public_path_def demo_request_def)
  have h3: "\<not> is_public_path (path (demo_request ''/mcp'' [''authorization'' \<mapsto> ''bearer good'']))
                [''/health'']
            \<and> (headers (demo_request ''/mcp'' [''authorization'' \<mapsto> ''bearer good''])
                  ''authorization'' = None
                \<or> (\<exists>h. headers (demo_request ''/mcp'' [''authorization'' \<mapsto> ''bearer good''])
                          ''authorization'' = Some h
                        \<and> \<not> (\<exists>rest. h = ''Bearer '' @ rest)))"
    by (simp add: is_public_path_def demo_request_def)
  have h4: "\<not> is_public_path (path (demo_request ''/mcp'' [''authorization'' \<mapsto> ''Bearer nosub'']))
                [''/health'']
            \<and> headers (demo_request ''/mcp'' [''authorization'' \<mapsto> ''Bearer nosub''])
                  ''authorization'' = Some (''Bearer '' @ ''nosub'')
            \<and> verify_jwt demo_auth_env 5000 ''nosub'' (fst ?g) = (Inr ?p, ?w')
            \<and> (\<not> truthy (dict_get_default ?p ''iss'' (PStr ''''))
                \<or> \<not> truthy (dict_get_default ?p ''sub'' (PStr '''')))"
    by (simp add: is_public_path_def demo_request_def demo_verify_nosub dict_get_default_def)
  have a1: "dispatch demo_auth_env [''/health''] 5000 7 (demo_request ''/healthz'' Map.empty) ?g =
     (CallNext (demo_request ''/healthz'' Map.empty), ?g)"
    using dispatch_admission[where request = "demo_request ''/healthz'' Map.empty"
        and public_paths = "[''/health'']" and env = demo_auth_env and now = 5000 and utcnow = 7
        and g = ?g] h1
    by blast
  have a2: "dispatch demo_auth_env [''/health''] 5000 7 (demo_request ''/mcp'' Map.empty) ?g =
     (Return \<lparr>content = PDict [(''error'', PStr ''Missing Bearer token.'')], status_code = 401\<rparr>, ?g)"
    using dispatch_admission[where request = "demo_request ''/mcp'' Map.empty"
        and public_paths = "[''/health'']" and env = demo_auth_env and now = 5000 and utcnow = 7
        and g = ?g] h2
    by blast
  have a3: "dispatch demo_auth_env [''/health''] 5000 7
       (demo_request ''/mcp'' [''authorization'' \<mapsto> ''bearer good'']) ?g =
     (Return \<lparr>content = PDict [(''error'', PStr ''Missing Bearer token.'')], status_code = 401\<rparr>, ?g)"
    using dispatch_admission[where
        request = "demo_request ''/mcp'' [''authorization'' \<mapsto> ''bearer good'']"
        and public_paths = "[''/health'']" and env = demo_auth_env and now = 5000 and utcnow = 7
        and g = ?g] h3
    by blast
  have a4: "dispatch demo_auth_env [''/health''] 5000 7
       (demo_request ''/mcp'' [''authorization'' \<mapsto> ''Bearer nosub'']) ?g =
     (Return \<lparr>content = PDict [(''error'', PStr ''Token missing iss/sub.'')], status_code = 401\<rparr>,
      (?w', snd ?g))"
    using dispatch_admission[where
        request = "demo_request ''/mcp'' [''authorization'' \<mapsto> ''Bearer nosub'']"
        and public_paths = "[''/health'']" and env = demo_auth_env and now = 5000 and utcnow = 7
        and g = ?g and token = "''nosub''" and payload = ?p and w' = ?w'] h4
    by blast
  from a1 a2 a3 a4 show ?thesis by simp
qed

subsection \<open>The principal store\<close>











end
